theory Spec2Isabelle
  imports Complex_Main
begin

unbundle bit_operations_syntax

section \<open>Data model\<close>

type_synonym path = string

text \<open>Exceptions derived from \<open>std::exception\<close>; each carries its message.\<close>

datatype exn =
    ScriptError string
  | InvalidArgument string
  | FilesystemError string
  | StdException string

text \<open>
  How a call of \<open>CreateObject\<close> or \<open>DeleteObject\<close> ends: it returns its boolean, an
  exception leaves the function, or a null pointer is dereferenced (\<open>errors->Add\<close> and
  \<open>ctype->GetObject\<close> are called without a null test in \<open>CreateObject\<close>).
\<close>

datatype outcome = Returned bool | Thrown exn | NullDereference

datatype val = Empty | Number real | Boolean bool | Str string

datatype LogSeverity = LogNotice | LogInformation

text \<open>\<open>struct Field\<close> of the reflection system: the name and the attribute bit mask.\<close>

record Field =
  Name :: string
  Attributes :: int

text \<open>
  A \<open>Type\<close>: \<open>GetName\<close>, \<open>GetPluralName\<close>, the field table behind \<open>GetFieldId\<close> and
  \<open>GetFieldInfo\<close>, whether \<open>dynamic_cast<ConfigType *>\<close> succeeds, and the
  \<open>NameComposer\<close> facet (\<open>ParseName\<close>) when \<open>dynamic_cast<NameComposer *>\<close> succeeds.
\<close>

record Type =
  TypeName :: string
  PluralName :: string
  Fields :: "Field list"
  IsConfigType :: bool
  ParseName :: "(string \<Rightarrow> (string \<times> val) list) option"

text \<open>A \<open>ConfigObject\<close> as far as this file reads and writes it.\<close>

record ConfigObject =
  ReflectionType :: string
  ObjectName :: string
  Package :: string
  DebugInfoPath :: path
  Active :: bool
  Extensions :: "string \<rightharpoonup> val"

text \<open>
  \<open>DependencyGraph::GetParents\<close> returns \<open>Object::Ptr\<close>s; \<open>dynamic_pointer_cast\<close> tells
  the config objects (addresses in the object store) from the others.
\<close>

datatype ObjectPtr = ConfigObjectPtr nat | OtherObjectPtr nat

text \<open>
  The live registry: the object store (objects are reference counted, so every address a
  caller holds is valid), the per-type object registry read by \<open>ConfigType::GetObject\<close>,
  the registered \<open>ConfigItem\<close>s read by \<open>ConfigItem::GetByTypeAndName\<close>, and the
  dependency graph read by \<open>DependencyGraph::GetParents\<close>.
\<close>

record runtime =
  heap :: "nat \<Rightarrow> ConfigObject"
  objects :: "(string \<times> string) \<rightharpoonup> nat"
  items :: "(string \<times> string) set"
  parents :: "nat \<Rightarrow> ObjectPtr list"

text \<open>
  The world a call runs in: visible files and directories with their permission bits,
  the temporary files of open \<open>AtomicFile\<close>s by target path, the package bookkeeping of
  \<open>ConfigPackageUtility\<close>, the log, and the live registry.
\<close>

record world =
  files :: "path \<rightharpoonup> (string \<times> nat)"
  dirs :: "path \<rightharpoonup> nat"
  temps :: "path \<rightharpoonup> (string \<times> nat)"
  packages :: "string set"
  active_stage :: "string \<Rightarrow> string"
  log :: "(LogSeverity \<times> string \<times> string) list"
  rt :: runtime

datatype expression = Expression path string string

datatype AtomicFileStep = Open | Write | Flush | Commit

text \<open>
  The collaborators whose code is not part of this translation unit are parameters:
  what they compute, and whether they throw, is given by the environment.
  \<^item> \<open>GetPackageDir\<close>, \<open>EscapeString\<close>, \<open>TruncateUsingHash\<close> (by its template argument),
    \<open>DiagnosticInformation\<close> (by its \<open>verbose\<close> flag), \<open>GetTime\<close>, \<open>FAConfig\<close>, the conversion
    of a \<open>Value\<close> to a \<open>String\<close> and \<open>ConfigWriter::EmitConfigItem\<close> are functions;
  \<^item> \<open>recursive_directory_iterator\<close> gives the entries of a directory in the order of the
    iteration, or the exception of its constructor; \<open>NewStage\<close> names the stage that
    \<open>CreateStage\<close> creates;
  \<^item> \<open>AtomicFileFault\<close>, \<open>DeactivateFault\<close> and \<open>UnregisterFault\<close> say which operations on the
    pending write, and which deactivations and unregistrations, throw;
  \<^item> \<open>CompileText\<close> yields an expression or throws; \<open>Evaluate\<close>, \<open>CommitItems\<close>,
    \<open>ActivateItems\<close> and \<open>UpdateObjectAuthority\<close> act on the registry and may throw after
    having changed it; \<open>CommitItems\<close> returns its boolean, the exceptions of the work
    queue and the new items, \<open>ActivateItems\<close> its boolean.
\<close>

record env =
  GetPackageDir :: string
  EscapeString :: "string \<Rightarrow> string \<Rightarrow> bool \<Rightarrow> string"
  TruncateUsingHash :: "nat \<Rightarrow> string \<Rightarrow> string"
  recursive_directory_iterator :: "world \<Rightarrow> path \<Rightarrow> exn + path list"
  NewStage :: "world \<Rightarrow> string \<Rightarrow> string"
  DiagnosticInformation :: "exn \<Rightarrow> bool \<Rightarrow> string"
  AtomicFileFault :: "AtomicFileStep \<Rightarrow> path \<Rightarrow> exn option"
  CompileText :: "path \<Rightarrow> string \<Rightarrow> string \<Rightarrow> string \<Rightarrow> exn + expression"
  Evaluate :: "expression \<Rightarrow> runtime \<Rightarrow> exn option \<times> runtime"
  CommitItems :: "runtime \<Rightarrow> (exn + bool \<times> exn list \<times> (string \<times> string) list) \<times> runtime"
  ActivateItems :: "(string \<times> string) list \<Rightarrow> val \<Rightarrow> runtime \<Rightarrow> (exn + bool) \<times> runtime"
  UpdateObjectAuthority :: "runtime \<Rightarrow> exn option \<times> runtime"
  DeactivateFault :: "nat \<Rightarrow> exn option"
  UnregisterFault :: "nat \<Rightarrow> exn option"
  FAConfig :: int
  GetTime :: real
  ValueToString :: "val \<Rightarrow> string"
  EmitConfigItem :: "string \<Rightarrow> string \<Rightarrow> bool \<Rightarrow> bool \<Rightarrow> val list option \<Rightarrow> (string \<rightharpoonup> val) \<Rightarrow> string"

section \<open>Strings and paths\<close>

text \<open>The apostrophe that the messages put around names.\<close>

abbreviation (input) sq :: string where
  "sq \<equiv> [CHR 0x27]"

text \<open>
  Modelled from the spec: \<open>String::ToLower\<close> (\<open>base/string.cpp\<close>) is not among the sources;
  the spec has \<open>lowercase(type.pluralName)\<close>. The letters \<open>A\<close> to \<open>Z\<close> become \<open>a\<close> to \<open>z\<close>.
\<close>

definition ToLower :: "string \<Rightarrow> string" where
  "ToLower s =
     map (\<lambda>c. case map_of (zip ''ABCDEFGHIJKLMNOPQRSTUVWXYZ'' ''abcdefghijklmnopqrstuvwxyz'') c of
                 Some l \<Rightarrow> l
               | None \<Rightarrow> c) s"

text \<open>
  \<open>boost::filesystem::path::filename\<close> and \<open>stem\<close>: the last component of a path, and
  that component without its last extension (unless it is \<open>.\<close> or \<open>..\<close>).
\<close>

definition filename :: "path \<Rightarrow> string" where
  "filename p = rev (takeWhile (\<lambda>c. c \<noteq> CHR ''/'') (rev p))"

definition stem :: "path \<Rightarrow> string" where
  "stem p =
     (let f = filename p
      in if f = ''.'' \<or> f = ''..'' \<or> CHR ''.'' \<notin> set f then f
         else rev (tl (dropWhile (\<lambda>c. c \<noteq> CHR ''.'') (rev f))))"

text \<open>
  Modelled from the spec: \<open>Log\<close> (\<open>base/logger.hpp\<close>) is not among the sources; logging is
  plumbing outside the core. An entry is appended to the log of the world.
\<close>

definition Log :: "LogSeverity \<Rightarrow> string \<Rightarrow> string \<Rightarrow> world \<Rightarrow> world" where
  "Log severity facility message w = w\<lparr>log := log w @ [(severity, facility, message)]\<rparr>"

section \<open>Package bookkeeping\<close>

text \<open>
  \<open>ConfigPackageUtility\<close> (\<open>remote/configpackageutility.cpp\<close>) is not among the sources. By
  the spec a package exists or not and records at most one active stage; the empty string
  stands for none.
\<close>

text \<open>Modelled from the spec: \<open>ConfigPackageUtility::PackageExists\<close>, whether the package exists.\<close>

definition PackageExists :: "world \<Rightarrow> string \<Rightarrow> bool" where
  "PackageExists w package = (package \<in> packages w)"

text \<open>Modelled from the spec: \<open>ConfigPackageUtility::CreatePackage\<close>, after which the package exists.\<close>

definition CreatePackage :: "string \<Rightarrow> world \<Rightarrow> world" where
  "CreatePackage package w = w\<lparr>packages := insert package (packages w)\<rparr>"

text \<open>
  Modelled from the spec: \<open>ConfigPackageUtility::CreateStage\<close>, which yields the name of a fresh
  stage of the package; the name is the environment's.
\<close>

definition CreateStage :: "env \<Rightarrow> string \<Rightarrow> world \<Rightarrow> string" where
  "CreateStage env package w = NewStage env w package"

text \<open>
  Modelled from the spec: \<open>ConfigPackageUtility::GetActiveStage\<close>, the recorded active stage of
  the package, empty when none is recorded.
\<close>

definition GetActiveStage :: "world \<Rightarrow> string \<Rightarrow> string" where
  "GetActiveStage w package = active_stage w package"

text \<open>
  Modelled from the spec: \<open>ConfigPackageUtility::ActivateStage\<close>, which records the stage as the
  active one of the package.
\<close>

definition ActivateStage :: "string \<Rightarrow> string \<Rightarrow> world \<Rightarrow> world" where
  "ActivateStage package stage w = w\<lparr>active_stage := (active_stage w)(package := stage)\<rparr>"

section \<open>Path composition\<close>

definition RepairPackage :: "env \<Rightarrow> string \<Rightarrow> world \<Rightarrow> exn + world" where
  "RepairPackage env package w =
     (let dir = GetPackageDir env @ ''/'' @ package @ ''/''
      in case recursive_directory_iterator env w dir of
           Inl e \<Rightarrow> Inl e
         | Inr entries \<Rightarrow>
             (let foundActiveStage =
                    (case find (\<lambda>d. d \<in> dom (dirs w)) entries of
                       None \<Rightarrow> []
                     | Some d \<Rightarrow> stem d)
              in if foundActiveStage \<noteq> [] then
                   Inr (ActivateStage package foundActiveStage
                         (Log LogInformation ''ConfigObjectUtility''
                            (''Repairing config package '' @ sq @ package @ sq @ '' with stage '' @ sq
                               @ foundActiveStage @ sq @ ''.'') w))
                 else
                   Inl (InvalidArgument (''Cannot repair package '' @ sq @ package @ sq
                          @ '', please check the troubleshooting docs.''))))"

definition GetConfigDir :: "env \<Rightarrow> world \<Rightarrow> exn + (string \<times> world)" where
  "GetConfigDir env w =
     (let prefix = GetPackageDir env @ ''/_api/'';
          activeStage = GetActiveStage w ''_api''
      in if activeStage = [] then
           (case RepairPackage env ''_api'' w of
              Inl e \<Rightarrow> Inl e
            | Inr w' \<Rightarrow> Inr (prefix @ activeStage, w'))
         else Inr (prefix @ activeStage, w))"

definition EscapeName :: "env \<Rightarrow> string \<Rightarrow> string" where
  "EscapeName env name =
     EscapeString env name (''<>:'' @ [CHR 0x22] @ ''/'' @ [CHR 0x5C] @ ''|?*'') True"

definition ComputeNewObjectConfigPath :: "env \<Rightarrow> Type \<Rightarrow> string \<Rightarrow> world \<Rightarrow> exn + (path \<times> world)" where
  "ComputeNewObjectConfigPath env type fullName w =
     (case GetConfigDir env w of
        Inl e \<Rightarrow> Inl e
      | Inr (configDir, w') \<Rightarrow>
          (let prefix = configDir @ ''/conf.d/'' @ ToLower (PluralName type) @ ''/'';
               escapedName = EscapeName env fullName;
               longPath = prefix @ escapedName @ ''.conf''
           in if TypeName type \<noteq> ''Comment'' \<and> TypeName type \<noteq> ''Downtime'' then
                Inr (longPath, w')
              else
                Inr (prefix @ TruncateUsingHash env (80 + 3 + 40) escapedName @ ''.conf'', w')))"

definition GetExistingObjectConfigPath :: "ConfigObject \<Rightarrow> path" where
  "GetExistingObjectConfigPath object = DebugInfoPath object"

definition CreateStorage :: "env \<Rightarrow> world \<Rightarrow> world" where
  "CreateStorage env w =
     (let package = ''_api''
      in if \<not> PackageExists w package then
           (let w1 = Log LogNotice ''ConfigObjectUtility''
                       (''Package '' @ package @ '' doesn't exist yet, creating it.'') w;
                w2 = CreatePackage package w1;
                stage = CreateStage env package w2
            in ActivateStage package stage w2)
         else w)"

section \<open>Rendering the configuration of a new object\<close>

text \<open>
  Modelled from the spec: \<open>Type::GetFieldId\<close> is generated per type and not among the
  sources. The reflection contract is \<open>FieldByName(type, key)\<close> over the type's ordered
  field descriptors: \<open>field_index\<close> is the position of the first field of that name,
  \<open>-1\<close> when there is none.
\<close>

fun field_index :: "Field list \<Rightarrow> string \<Rightarrow> int \<Rightarrow> int" where
  "field_index [] name i = - 1"
| "field_index (f # fs) name i = (if Name f = name then i else field_index fs name (i + 1))"

text \<open>Modelled from the spec: \<open>Type::GetFieldId\<close>, the id of the field of that name or \<open>-1\<close>.\<close>

definition GetFieldId :: "Type \<Rightarrow> string \<Rightarrow> int" where
  "GetFieldId type name = field_index (Fields type) name 0"

text \<open>Modelled from the spec: \<open>Type::GetFieldInfo\<close>, the descriptor of the field with that id.\<close>

definition GetFieldInfo :: "Type \<Rightarrow> int \<Rightarrow> Field" where
  "GetFieldInfo type fid = Fields type ! nat fid"

text \<open>
  Modelled from the spec: \<open>Dictionary::Get\<close> (\<open>base/dictionary.cpp\<close>) is not among the sources;
  an attribute set maps keys to values, and a missing key reads as the empty value.
\<close>

definition Get :: "(string \<times> val) list \<Rightarrow> string \<Rightarrow> val" where
  "Get d key = (case map_of d key of None \<Rightarrow> Empty | Some v \<Rightarrow> v)"

text \<open>
  Modelled from the spec: \<open>Dictionary::CopyTo\<close> (\<open>base/dictionary.cpp\<close>) is not among the
  sources; every pair of the source is set in the destination.
\<close>

definition CopyTo :: "(string \<times> val) list \<Rightarrow> (string \<rightharpoonup> val) \<Rightarrow> (string \<rightharpoonup> val)" where
  "CopyTo src dst = fold (\<lambda>kv m. m(fst kv \<mapsto> snd kv)) src dst"

text \<open>
  The loop of \<open>CreateObjectConfig\<close> over the pairs of \<open>attrs\<close>, in the dictionary's order;
  the result is the exception thrown, if any. \<open>kv.first.SubStr(0, kv.first.FindFirstOf("."))\<close>
  is the key up to its first dot.
\<close>

fun check_attrs :: "env \<Rightarrow> Type \<Rightarrow> (string \<times> val) list \<Rightarrow> exn option" where
  "check_attrs env type [] = None"
| "check_attrs env type (kv # kvs) =
     (let fid = GetFieldId type (takeWhile (\<lambda>c. c \<noteq> CHR ''.'') (fst kv))
      in if fid < 0 then
           Some (ScriptError (''Invalid attribute specified: '' @ fst kv))
         else
           (let field = GetFieldInfo type fid
            in if (Attributes field AND FAConfig env) = 0 \<or> fst kv = ''name'' then
                 Some (ScriptError
                   (''Attribute is marked for internal use only and may not be set: '' @ fst kv))
               else check_attrs env type kvs))"

definition CreateObjectConfig ::
  "env \<Rightarrow> Type \<Rightarrow> string \<Rightarrow> bool \<Rightarrow> val list option \<Rightarrow> (string \<times> val) list option
    \<Rightarrow> exn + string" where
  "CreateObjectConfig env type fullName ignoreOnError templates attrs =
     (let nameParts = map_option (\<lambda>parse. parse fullName) (ParseName type);
          name = (case nameParts of
                    Some parts \<Rightarrow> ValueToString env (Get parts ''name'')
                  | None \<Rightarrow> fullName)
      in case (case attrs of None \<Rightarrow> None | Some kvs \<Rightarrow> check_attrs env type kvs) of
           Some ex \<Rightarrow> Inl ex
         | None \<Rightarrow>
             (let allAttrs0 = (case attrs of None \<Rightarrow> Map.empty | Some kvs \<Rightarrow> CopyTo kvs Map.empty);
                  allAttrs1 = (case nameParts of None \<Rightarrow> allAttrs0 | Some parts \<Rightarrow> CopyTo parts allAttrs0);
                  allAttrs2 = allAttrs1(''name'' := None);
                  allAttrs3 = allAttrs2(''version'' \<mapsto> Number (GetTime env))
              in Inr (EmitConfigItem env (TypeName type) name False ignoreOnError templates allAttrs3
                        @ [CHR 0x0A])))"

section \<open>Files\<close>

text \<open>
  Modelled from the spec: \<open>Utility::DirName\<close> (\<open>base/utility.cpp\<close>) is not among the sources;
  it drops the last component of a path.
\<close>

definition DirName :: "path \<Rightarrow> path" where
  "DirName p =
     (if CHR ''/'' \<notin> set p then ''.''
      else (let d = rev (tl (dropWhile (\<lambda>c. c \<noteq> CHR ''/'') (rev p)))
            in if d = [] then ''/'' else d))"

text \<open>
  Modelled from the spec: \<open>Utility::MkDirP\<close> and \<open>Utility::MkDir\<close> (\<open>base/utility.cpp\<close>) are not
  among the sources. \<open>MkDirP\<close> makes, with the mode it is given, every directory on the way
  to its argument that does not exist yet: \<open>MkDirP_prefixes\<close> lists the prefixes of the
  path that end before a slash (the first character apart), then the path itself.
\<close>

fun MkDirP_prefixes :: "path \<Rightarrow> path \<Rightarrow> path list" where
  "MkDirP_prefixes acc [] = [acc]"
| "MkDirP_prefixes acc (c # cs) =
     (if c = CHR ''/'' \<and> acc \<noteq> [] then [acc] else []) @ MkDirP_prefixes (acc @ [c]) cs"

text \<open>Modelled from the spec: \<open>Utility::MkDir\<close>, which leaves an existing directory as it is.\<close>

definition MkDir :: "path \<Rightarrow> nat \<Rightarrow> world \<Rightarrow> world" where
  "MkDir p mode w = (if p \<in> dom (dirs w) then w else w\<lparr>dirs := (dirs w)(p \<mapsto> mode)\<rparr>)"

text \<open>Modelled from the spec: \<open>Utility::MkDirP\<close>, one \<open>MkDir\<close> for each of these prefixes in turn.\<close>

definition MkDirP :: "path \<Rightarrow> nat \<Rightarrow> world \<Rightarrow> world" where
  "MkDirP p mode w = fold (\<lambda>d. MkDir d mode) (MkDirP_prefixes [] p) w"

text \<open>
  Modelled from the spec: \<open>Utility::Remove\<close> (\<open>base/utility.cpp\<close>) is not among the sources; it
  removes the file, if there is one.
\<close>

definition Remove :: "path \<Rightarrow> world \<Rightarrow> world" where
  "Remove p w = w\<lparr>files := (files w)(p := None)\<rparr>"

text \<open>
  \<open>AtomicFile\<close> (\<open>base/atomic-file.hpp\<close>) is not among the sources. By the spec, and by the
  comments of \<open>CreateObject\<close>, a pending write is a temporary file for a target path; the
  text written to it is not visible at the target until \<open>Commit\<close> renames it into place,
  and it is discarded when the \<open>AtomicFile\<close> goes out of scope without a commit.
\<close>

text \<open>
  Modelled from the spec: the constructor of \<open>AtomicFile\<close>, which opens an empty temporary
  file with the given mode for the target.
\<close>

definition AtomicFile_open :: "path \<Rightarrow> nat \<Rightarrow> world \<Rightarrow> world" where
  "AtomicFile_open p mode w = w\<lparr>temps := (temps w)(p \<mapsto> ([], mode))\<rparr>"

text \<open>Modelled from the spec: \<open>operator<<\<close> on an \<open>AtomicFile\<close>, which appends to the temporary file.\<close>

definition AtomicFile_write :: "path \<Rightarrow> string \<Rightarrow> world \<Rightarrow> world" where
  "AtomicFile_write p text w =
     (case temps w p of
        None \<Rightarrow> w
      | Some f \<Rightarrow> w\<lparr>temps := (temps w)(p \<mapsto> (fst f @ text, snd f))\<rparr>)"

text \<open>
  Modelled from the spec: \<open>AtomicFile::Commit\<close>, which renames the temporary file to the target,
  where it replaces what was there.
\<close>

definition AtomicFile_Commit :: "path \<Rightarrow> world \<Rightarrow> world" where
  "AtomicFile_Commit p w =
     (case temps w p of
        None \<Rightarrow> w
      | Some f \<Rightarrow> w\<lparr>files := (files w)(p \<mapsto> f), temps := (temps w)(p := None)\<rparr>)"

text \<open>
  Modelled from the spec: the destructor of \<open>AtomicFile\<close>, which removes the temporary file if
  it is still there.
\<close>

definition AtomicFile_destroy :: "path \<Rightarrow> world \<Rightarrow> world" where
  "AtomicFile_destroy p w = w\<lparr>temps := (temps w)(p := None)\<rparr>"

section \<open>Creating an object\<close>

text \<open>
  Modelled from the spec: \<open>ConfigType::GetObject\<close> (\<open>base/configtype.cpp\<close>) is not among the
  sources; it is the registry's \<open>GetObject(type, name)\<close>, the object or null.
\<close>

definition GetObject :: "runtime \<Rightarrow> Type \<Rightarrow> string \<Rightarrow> nat option" where
  "GetObject r type name = objects r (TypeName type, name)"

text \<open>
  The error handling shared by the two \<open>return false\<close> branches of the \<open>try\<close> block: under
  \<open>if (errors)\<close>, a notice is logged and every exception of the work queue is added to
  \<open>errors\<close> and, when given, to \<open>diagnosticInformation\<close>.
\<close>

definition report_exceptions ::
  "env \<Rightarrow> string \<Rightarrow> exn list \<Rightarrow> string list option \<Rightarrow> string list option \<Rightarrow> world
    \<Rightarrow> string list option \<times> string list option \<times> world" where
  "report_exceptions env notice exs errors diagnosticInformation w =
     (case errors of
        None \<Rightarrow> (None, diagnosticInformation, w)
      | Some es \<Rightarrow>
          (Some (es @ map (\<lambda>ex. DiagnosticInformation env ex False) exs),
           map_option (\<lambda>ds. ds @ map (\<lambda>ex. DiagnosticInformation env ex True) exs)
             diagnosticInformation,
           Log LogNotice ''ConfigObjectUtility'' notice w))"

text \<open>The \<open>catch (const std::exception& ex)\<close> handler of \<open>CreateObject\<close> and \<open>DeleteObjectHelper\<close>.\<close>

definition catch_exception ::
  "env \<Rightarrow> exn \<Rightarrow> string list option \<Rightarrow> string list option
    \<Rightarrow> string list option \<times> string list option" where
  "catch_exception env ex errors diagnosticInformation =
     (map_option (\<lambda>es. es @ [DiagnosticInformation env ex False]) errors,
      map_option (\<lambda>ds. ds @ [DiagnosticInformation env ex True]) diagnosticInformation)"

text \<open>
  The \<open>try\<close> block of \<open>CreateObject\<close>, entered with the pending write open and the text
  compiled. A collaborator that throws may have changed the registry before.
\<close>

definition CreateObject_try ::
  "env \<Rightarrow> Type \<Rightarrow> string \<Rightarrow> path \<Rightarrow> expression \<Rightarrow> string list option \<Rightarrow> string list option
    \<Rightarrow> val \<Rightarrow> world \<Rightarrow> outcome \<times> string list option \<times> string list option \<times> world" where
  "CreateObject_try env type fullName p expr errors diagnosticInformation cookie w =
     (let caught = (\<lambda>ex w'. (Returned False,
                      fst (catch_exception env ex errors diagnosticInformation),
                      snd (catch_exception env ex errors diagnosticInformation), w'))
      in case Evaluate env expr (rt w) of
           (Some ex, r1) \<Rightarrow> caught ex (w\<lparr>rt := r1\<rparr>)
         | (None, r1) \<Rightarrow>
             (case CommitItems env r1 of
                (Inl ex, r2) \<Rightarrow> caught ex (w\<lparr>rt := r2\<rparr>)
              | (Inr (ok, exs, newItems), r2) \<Rightarrow>
                  if \<not> ok then
                    (case report_exceptions env
                            (''Failed to commit config item '' @ sq @ fullName @ sq @ ''.'')
                            exs errors diagnosticInformation (w\<lparr>rt := r2\<rparr>) of
                       (errors', diag', w') \<Rightarrow> (Returned False, errors', diag', w'))
                  else
                    (case ActivateItems env newItems cookie r2 of
                       (Inl ex, r3) \<Rightarrow> caught ex (w\<lparr>rt := r3\<rparr>)
                     | (Inr activated, r3) \<Rightarrow>
                         if \<not> activated then
                           (case report_exceptions env
                                   (''Failed to activate config object '' @ sq @ fullName @ sq @ ''.'')
                                   exs errors diagnosticInformation (w\<lparr>rt := r3\<rparr>) of
                              (errors', diag', w') \<Rightarrow> (Returned False, errors', diag', w'))
                         else
                           (case (if TypeName type \<noteq> ''Comment'' \<and> TypeName type \<noteq> ''Downtime''
                                  then UpdateObjectAuthority env r3 else (None, r3)) of
                              (Some ex, r4) \<Rightarrow> caught ex (w\<lparr>rt := r4\<rparr>)
                            | (None, r4) \<Rightarrow>
                                if \<not> IsConfigType type then
                                  (NullDereference, errors, diagnosticInformation, w\<lparr>rt := r4\<rparr>)
                                else
                                  (case GetObject r4 type fullName of
                                     Some obj \<Rightarrow>
                                       (case AtomicFileFault env Commit p of
                                          Some ex \<Rightarrow> caught ex (w\<lparr>rt := r4\<rparr>)
                                        | None \<Rightarrow>
                                            (Returned True, errors, diagnosticInformation,
                                             Log LogInformation ''ConfigObjectUtility''
                                               (''Created and activated object '' @ sq @ fullName @ sq
                                                  @ '' of type '' @ sq @ TypeName type @ sq @ ''.'')
                                               (AtomicFile_Commit p (w\<lparr>rt := r4\<rparr>))))
                                   | None \<Rightarrow>
                                       (Returned True, errors, diagnosticInformation,
                                        Log LogNotice ''ConfigObjectUtility''
                                          (''Object '' @ sq @ fullName @ sq
                                             @ '' was not created but ignored due to errors.'')
                                          (w\<lparr>rt := r4\<rparr>)))))))"

text \<open>
  \<open>CreateObject\<close>. The modes are the octal literals of the source: \<open>0700 = 448\<close> for the
  directories, \<open>0644 = 420\<close> for the file. The \<open>AtomicFile\<close> is a local: its destructor runs
  on every return and on every exception that leaves the function.
\<close>

definition CreateObject ::
  "env \<Rightarrow> Type \<Rightarrow> string \<Rightarrow> string \<Rightarrow> string list option \<Rightarrow> string list option \<Rightarrow> val \<Rightarrow> world
    \<Rightarrow> outcome \<times> string list option \<times> string list option \<times> world" where
  "CreateObject env type fullName config errors diagnosticInformation cookie w0 =
     (let w1 = CreateStorage env w0
      in if IsConfigType type \<and> GetObject (rt w1) type fullName \<noteq> None then
           (case errors of
              None \<Rightarrow> (NullDereference, None, diagnosticInformation, w1)
            | Some es \<Rightarrow>
                (Returned False,
                 Some (es @ [''Object '' @ sq @ fullName @ sq @ '' already exists.'']),
                 diagnosticInformation, w1))
         else
           (case ComputeNewObjectConfigPath env type fullName w1 of
              Inl ex \<Rightarrow>
                (case errors of
                   None \<Rightarrow> (NullDereference, None, diagnosticInformation, w1)
                 | Some es \<Rightarrow>
                     (Returned False,
                      Some (es @ [''Config package broken: '' @ DiagnosticInformation env ex False]),
                      diagnosticInformation, w1))
            | Inr (p, w2) \<Rightarrow>
                (let w3 = MkDirP (DirName p) 448 w2
                 in case AtomicFileFault env Open p of
                      Some ex \<Rightarrow> (Thrown ex, errors, diagnosticInformation, w3)
                    | None \<Rightarrow>
                        (let w4 = AtomicFile_open p 420 w3
                         in case AtomicFileFault env Write p of
                              Some ex \<Rightarrow>
                                (Thrown ex, errors, diagnosticInformation, AtomicFile_destroy p w4)
                            | None \<Rightarrow>
                                (let w5 = AtomicFile_write p config w4
                                 in case AtomicFileFault env Flush p of
                                      Some ex \<Rightarrow>
                                        (Thrown ex, errors, diagnosticInformation,
                                         AtomicFile_destroy p w5)
                                    | None \<Rightarrow>
                                        (case CompileText env p config [] ''_api'' of
                                           Inl ex \<Rightarrow>
                                             (Thrown ex, errors, diagnosticInformation,
                                              AtomicFile_destroy p w5)
                                         | Inr expr \<Rightarrow>
                                             (case CreateObject_try env type fullName p expr errors
                                                     diagnosticInformation cookie w5 of
                                                (out, errors', diag', w6) \<Rightarrow>
                                                  (out, errors', diag',
                                                   if out = NullDereference then w6
                                                   else AtomicFile_destroy p w6))))))))"

section \<open>Deleting an object\<close>

text \<open>An assignment to fields of the object at an address.\<close>

definition update_object :: "nat \<Rightarrow> (ConfigObject \<Rightarrow> ConfigObject) \<Rightarrow> world \<Rightarrow> world" where
  "update_object a f w = w\<lparr>rt := (rt w)\<lparr>heap := (heap (rt w))(a := f (heap (rt w) a))\<rparr>\<rparr>"

text \<open>
  Modelled from the spec: \<open>ConfigObject::SetExtension\<close> (\<open>base/configobject.cpp\<close>) is not among
  the sources; it marks the object, here with the delete-in-flight flag.
\<close>

definition SetExtension :: "nat \<Rightarrow> string \<Rightarrow> val \<Rightarrow> world \<Rightarrow> world" where
  "SetExtension a key v w = update_object a (\<lambda>obj. obj\<lparr>Extensions := (Extensions obj)(key \<mapsto> v)\<rparr>) w"

text \<open>
  Modelled from the spec: \<open>ConfigObject::Deactivate\<close> (\<open>base/configobject.cpp\<close>) is not among
  the sources; after it the object is not active.
\<close>

definition Deactivate :: "nat \<Rightarrow> world \<Rightarrow> world" where
  "Deactivate a w = update_object a (\<lambda>obj. obj\<lparr>Active := False\<rparr>) w"

text \<open>
  Modelled from the spec: \<open>ConfigObject::Unregister\<close> (\<open>base/configobject.cpp\<close>) is not among
  the sources; it takes the runtime instance out of the registry of its type.
\<close>

definition Unregister_object :: "string \<Rightarrow> string \<Rightarrow> world \<Rightarrow> world" where
  "Unregister_object type name w = w\<lparr>rt := (rt w)\<lparr>objects := (objects (rt w))((type, name) := None)\<rparr>\<rparr>"

text \<open>
  Modelled from the spec: \<open>ConfigItem::Unregister\<close> (\<open>config/configitem.cpp\<close>) is not among the
  sources; it takes out the backing item, and its runtime instance with it.
\<close>

definition Unregister_item :: "string \<Rightarrow> string \<Rightarrow> world \<Rightarrow> world" where
  "Unregister_item type name w =
     w\<lparr>rt := (rt w)\<lparr>objects := (objects (rt w))((type, name) := None),
                    items := items (rt w) - {(type, name)}\<rparr>\<rparr>"

text \<open>
  Modelled from the spec: \<open>DependencyGraph::GetParents\<close> (\<open>base/dependencygraph.cpp\<close>) is not
  among the sources; it is the graph's \<open>GetDependents(object)\<close>, the objects that depend on
  the given one.
\<close>

definition GetParents :: "runtime \<Rightarrow> nat \<Rightarrow> ObjectPtr list" where
  "GetParents r a = parents r a"

text \<open>
  \<open>DeleteObjectHelper\<close> from the lookup of the item to the end: the \<open>try\<close> block with its
  handler, the removal of the file, and the log entry.
\<close>

definition DeleteObjectHelper_self ::
  "env \<Rightarrow> nat \<Rightarrow> string \<Rightarrow> string \<Rightarrow> string list option \<Rightarrow> string list option \<Rightarrow> val \<Rightarrow> world
    \<Rightarrow> bool \<times> string list option \<times> string list option \<times> world" where
  "DeleteObjectHelper_self env object type name errors diagnosticInformation cookie w =
     (let item = ((type, name) \<in> items (rt w));
          w1 = SetExtension object ''ConfigObjectDeleted'' (Boolean True) w
      in case DeactivateFault env object of
           Some ex \<Rightarrow>
             (False, fst (catch_exception env ex errors diagnosticInformation),
              snd (catch_exception env ex errors diagnosticInformation), w1)
         | None \<Rightarrow>
             (let w2 = Deactivate object w1
              in case UnregisterFault env object of
                   Some ex \<Rightarrow>
                     (False, fst (catch_exception env ex errors diagnosticInformation),
                      snd (catch_exception env ex errors diagnosticInformation), w2)
                 | None \<Rightarrow>
                     (let w3 = (if item then Unregister_item type name w2
                                else Unregister_object type name w2);
                          w4 = (if Package (heap (rt w3) object) = ''_api''
                                then Remove (GetExistingObjectConfigPath (heap (rt w3) object)) w3
                                else w3)
                      in (True, errors, diagnosticInformation,
                          Log LogInformation ''ConfigObjectUtility''
                            (''Deleted object '' @ sq @ name @ sq @ '' of type '' @ sq @ type @ sq @ ''.'')
                            w4))))"

text \<open>
  \<open>DeleteObjectHelper\<close> calls itself for every dependent, and nothing bounds the depth when
  the dependency graph has a cycle: the first argument is the depth of calls allowed, and
  \<open>None\<close> says that it did not suffice. \<open>DeleteParents\<close> is the loop over \<open>parents\<close>; it
  drops the boolean of each recursive call.
\<close>

fun DeleteObjectHelper ::
  "nat \<Rightarrow> env \<Rightarrow> nat \<Rightarrow> bool \<Rightarrow> string list option \<Rightarrow> string list option \<Rightarrow> val \<Rightarrow> world
    \<Rightarrow> (bool \<times> string list option \<times> string list option \<times> world) option"
and DeleteParents ::
  "nat \<Rightarrow> env \<Rightarrow> ObjectPtr list \<Rightarrow> bool \<Rightarrow> string list option \<Rightarrow> string list option \<Rightarrow> val \<Rightarrow> world
    \<Rightarrow> (string list option \<times> string list option \<times> world) option" where
  "DeleteObjectHelper 0 env object cascade errors diagnosticInformation cookie w = None"
| "DeleteObjectHelper (Suc n) env object cascade errors diagnosticInformation cookie w =
     (let ps = GetParents (rt w) object;
          type = ReflectionType (heap (rt w) object);
          name = ObjectName (heap (rt w) object)
      in if ps \<noteq> [] \<and> \<not> cascade then
           Some (False,
                 map_option (\<lambda>es. es @ [''Object '' @ sq @ name @ sq @ '' of type '' @ sq @ type @ sq
                     @ '' cannot be deleted because other objects depend on it. ''
                     @ ''Use cascading delete to delete it anyway.'']) errors,
                 diagnosticInformation, w)
         else
           (case DeleteParents n env ps cascade errors diagnosticInformation cookie w of
              None \<Rightarrow> None
            | Some (errors1, diag1, w1) \<Rightarrow>
                Some (DeleteObjectHelper_self env object type name errors1 diag1 cookie w1)))"
| "DeleteParents n env [] cascade errors diagnosticInformation cookie w =
     Some (errors, diagnosticInformation, w)"
| "DeleteParents n env (pobj # ps) cascade errors diagnosticInformation cookie w =
     (case pobj of
        OtherObjectPtr x \<Rightarrow> DeleteParents n env ps cascade errors diagnosticInformation cookie w
      | ConfigObjectPtr parentObj \<Rightarrow>
          (case DeleteObjectHelper n env parentObj cascade errors diagnosticInformation cookie w of
             None \<Rightarrow> None
           | Some (ignored, errors1, diag1, w1) \<Rightarrow>
               DeleteParents n env ps cascade errors1 diag1 cookie w1))"

definition DeleteObject ::
  "nat \<Rightarrow> env \<Rightarrow> nat \<Rightarrow> bool \<Rightarrow> string list option \<Rightarrow> string list option \<Rightarrow> val \<Rightarrow> world
    \<Rightarrow> (bool \<times> string list option \<times> string list option \<times> world) option" where
  "DeleteObject fuel env object cascade errors diagnosticInformation cookie w =
     (if Package (heap (rt w) object) \<noteq> ''_api'' then
        Some (False,
              map_option (\<lambda>es. es @ [''Object cannot be deleted because it was not created using the API.''])
                errors,
              diagnosticInformation, w)
      else DeleteObjectHelper fuel env object cascade errors diagnosticInformation cookie w)"

section \<open>What a delete may change\<close>

text \<open>
  The relation between the world before and the world after a delete, used to follow
  a cascade: the dependency graph and the type, name, package and path of every object
  stay; an object may become inactive and a registration may go, never the converse;
  and a file may only disappear, and then it is the file of an object of the package
  \<open>_api\<close>.
\<close>

definition delete_step :: "world \<Rightarrow> world \<Rightarrow> bool" where
  "delete_step w w' \<longleftrightarrow>
     parents (rt w') = parents (rt w)
     \<and> (\<forall>a. ReflectionType (heap (rt w') a) = ReflectionType (heap (rt w) a)
            \<and> ObjectName (heap (rt w') a) = ObjectName (heap (rt w) a)
            \<and> Package (heap (rt w') a) = Package (heap (rt w) a)
            \<and> DebugInfoPath (heap (rt w') a) = DebugInfoPath (heap (rt w) a))
     \<and> (\<forall>a. Active (heap (rt w') a) \<longrightarrow> Active (heap (rt w) a))
     \<and> (\<forall>k. objects (rt w') k = objects (rt w) k \<or> objects (rt w') k = None)
     \<and> (\<forall>p. files w' p = files w p
            \<or> (files w' p = None
                \<and> (\<exists>a. Package (heap (rt w) a) = ''_api'' \<and> DebugInfoPath (heap (rt w) a) = p)))"

text \<open>
  The edges of the dependency graph between config objects: \<open>(a, p)\<close> when \<open>p\<close> is among
  the objects that \<open>GetParents\<close> returns for \<open>a\<close>, that is when \<open>p\<close> depends on \<open>a\<close>. A
  cascade from \<open>a\<close> reaches the objects related to \<open>a\<close> by its reflexive transitive closure.
\<close>

definition depends :: "world \<Rightarrow> (nat \<times> nat) set" where
  "depends w = {(a, p). ConfigObjectPtr p \<in> set (GetParents (rt w) a)}"

text \<open>
  What a delete leaves of the object at an address: it is inactive, nothing is registered
  under its type and name, and its file is gone when it belongs to the package \<open>_api\<close>.
\<close>

definition deleted :: "world \<Rightarrow> world \<Rightarrow> nat \<Rightarrow> bool" where
  "deleted w w' p \<longleftrightarrow>
     \<not> Active (heap (rt w') p)
     \<and> objects (rt w') (ReflectionType (heap (rt w) p), ObjectName (heap (rt w) p)) = None
     \<and> (Package (heap (rt w) p) = ''_api'' \<longrightarrow> files w' (DebugInfoPath (heap (rt w) p)) = None)"

text \<open>
  What a cascade over the objects \<open>S\<close> does: each of them whose deactivation and
  unregistration do not throw ends deleted, and a file that is there before and not after
  is the file of one of them, of the package \<open>_api\<close>.
\<close>

definition cascade_ok :: "env \<Rightarrow> world \<Rightarrow> world \<Rightarrow> nat set \<Rightarrow> bool" where
  "cascade_ok env w w' S \<longleftrightarrow>
     (\<forall>p\<in>S. DeactivateFault env p = None \<and> UnregisterFault env p = None \<longrightarrow> deleted w w' p)
     \<and> (\<forall>f. files w' f = files w f
            \<or> (files w' f = None
                \<and> (\<exists>x\<in>S. Package (heap (rt w) x) = ''_api'' \<and> DebugInfoPath (heap (rt w) x) = f
                      \<and> DeactivateFault env x = None \<and> UnregisterFault env x = None)))"

section \<open>A concrete environment\<close>

text \<open>
  An environment, some types and some worlds on which the properties below are
  evaluated.
\<close>

definition hexdigit :: "nat \<Rightarrow> char" where
  "hexdigit n = ''0123456789ABCDEF'' ! n"

definition example_escape :: "string \<Rightarrow> string \<Rightarrow> bool \<Rightarrow> string" where
  "example_escape s chars illegal =
     concat (map (\<lambda>c. if c \<in> set chars \<or> c = CHR ''%''
                        then [CHR ''%'', hexdigit (of_char c div 16), hexdigit (of_char c mod 16)]
                        else [c]) s)"

definition exn_message :: "exn \<Rightarrow> string" where
  "exn_message ex = (case ex of ScriptError m \<Rightarrow> m | InvalidArgument m \<Rightarrow> m
                     | FilesystemError m \<Rightarrow> m | StdException m \<Rightarrow> m)"

definition example_env :: env where
  "example_env =
     \<lparr> GetPackageDir = ''/var/lib/icinga2/api/packages'',
       EscapeString = example_escape,
       TruncateUsingHash = (\<lambda>n s. if length s \<le> n then s
                                   else take (n - 43) s @ ''...'' @ replicate 40 (CHR ''0'')),
       recursive_directory_iterator = (\<lambda>w dir. Inr [dir @ ''active.conf'', dir @ ''stage1'']),
       NewStage = (\<lambda>w package. ''stage1''),
       DiagnosticInformation = (\<lambda>ex verbose. exn_message ex),
       AtomicFileFault = (\<lambda>step p. None),
       CompileText = (\<lambda>p text zone package. Inr (Expression p text package)),
       Evaluate = (\<lambda>expr r. (None, r)),
       CommitItems = (\<lambda>r. (Inr (True, [], []), r)),
       ActivateItems = (\<lambda>new cookie r. (Inr True, r)),
       UpdateObjectAuthority = (\<lambda>r. (None, r)),
       DeactivateFault = (\<lambda>a. None),
       UnregisterFault = (\<lambda>a. None),
       FAConfig = 2,
       GetTime = 0,
       ValueToString = (\<lambda>v. case v of Str s \<Rightarrow> s | _ \<Rightarrow> []),
       EmitConfigItem = (\<lambda>type name abstract ignoreOnError templates attrs.
                           ''object '' @ type @ '' '' @ name) \<rparr>"

definition HostType :: Type where
  "HostType =
     \<lparr> TypeName = ''Host'', PluralName = ''Hosts'',
       Fields = [\<lparr>Name = ''name'', Attributes = 2\<rparr>, \<lparr>Name = ''address'', Attributes = 2\<rparr>,
                 \<lparr>Name = ''state'', Attributes = 4\<rparr>],
       IsConfigType = True, ParseName = None \<rparr>"

definition example_object :: "string \<Rightarrow> string \<Rightarrow> string \<Rightarrow> path \<Rightarrow> ConfigObject" where
  "example_object type name package p =
     \<lparr> ReflectionType = type, ObjectName = name, Package = package, DebugInfoPath = p,
       Active = True, Extensions = Map.empty \<rparr>"

definition empty_runtime :: runtime where
  "empty_runtime =
     \<lparr> heap = (\<lambda>a. example_object [] [] [] []), objects = Map.empty, items = {},
       parents = (\<lambda>a. []) \<rparr>"

definition example_world :: world where
  "example_world =
     \<lparr> files = Map.empty,
       dirs = [''/var/lib/icinga2/api/packages/_api/stage1'' \<mapsto> 448],
       temps = Map.empty,
       packages = {''_api''},
       active_stage = (\<lambda>package. if package = ''_api'' then ''stage1'' else []),
       log = [],
       rt = empty_runtime \<rparr>"

definition broken_world :: world where
  "broken_world = example_world\<lparr>active_stage := (\<lambda>package. [])\<rparr>"

definition ServiceType :: Type where
  "ServiceType =
     \<lparr> TypeName = ''Service'', PluralName = ''Services'',
       Fields = [\<lparr>Name = ''name'', Attributes = 2\<rparr>, \<lparr>Name = ''host_name'', Attributes = 2\<rparr>,
                 \<lparr>Name = ''check_command'', Attributes = 2\<rparr>],
       IsConfigType = True,
       ParseName = Some (\<lambda>fullName.
         [(''host_name'', Str (takeWhile (\<lambda>c. c \<noteq> CHR ''!'') fullName)),
          (''name'', Str (drop 1 (dropWhile (\<lambda>c. c \<noteq> CHR ''!'') fullName)))]) \<rparr>"

text \<open>
  A registry with the host \<open>h1\<close>, created through the API, and the service \<open>h1!ping\<close>
  that depends on it and comes from the package \<open>_etc\<close>.
\<close>

definition cluster_runtime :: runtime where
  "cluster_runtime =
     \<lparr> heap = (\<lambda>a. if a = 0 then
                       example_object ''Host'' ''h1'' ''_api''
                         ''/var/lib/icinga2/api/packages/_api/stage1/conf.d/hosts/h1.conf''
                     else
                       example_object ''Service'' ''h1!ping'' ''_etc'' ''/etc/icinga2/conf.d/services.conf''),
       objects = [(''Host'', ''h1'') \<mapsto> 0, (''Service'', ''h1!ping'') \<mapsto> 1],
       items = {(''Host'', ''h1'')},
       parents = (\<lambda>a. if a = 0 then [ConfigObjectPtr 1] else []) \<rparr>"

definition cluster_world :: world where
  "cluster_world =
     example_world
       \<lparr> files := [''/var/lib/icinga2/api/packages/_api/stage1/conf.d/hosts/h1.conf'' \<mapsto> (''object Host h1'', 420),
                   ''/etc/icinga2/conf.d/services.conf'' \<mapsto> (''object Service ping'', 420)],
         rt := cluster_runtime \<rparr>"

text \<open>
  An environment in which committing registers the new host \<open>h2\<close>, one in which the
  activation then reports a failure, and a world in which a file is left at the path of
  \<open>h2\<close> although no such object is registered.
\<close>

definition creating_env :: env where
  "creating_env =
     example_env
       \<lparr> CommitItems := (\<lambda>r. (Inr (True, [], [(''Host'', ''h2'')]),
                               r\<lparr>objects := (objects r)((''Host'', ''h2'') \<mapsto> 2),
                                 items := insert (''Host'', ''h2'') (items r)\<rparr>)) \<rparr>"


definition path_h2 :: path where
  "path_h2 = ''/var/lib/icinga2/api/packages/_api/stage1/conf.d/hosts/h2.conf''"

definition orphan_world :: world where
  "orphan_world = example_world\<lparr> files := [path_h2 \<mapsto> (''stale'', 420)] \<rparr>"

text \<open>The three example runs of \<open>CreateObject\<close> for the host \<open>h2\<close>, and the world a run ends in.\<close>

definition world_of :: "outcome \<times> string list option \<times> string list option \<times> world \<Rightarrow> world" where
  "world_of r = snd (snd (snd r))"

definition ignored_create :: "outcome \<times> string list option \<times> string list option \<times> world" where
  "ignored_create =
     CreateObject example_env HostType ''h2'' ''object Host h2 {}'' (Some []) None Empty example_world"

definition committed_create :: "outcome \<times> string list option \<times> string list option \<times> world" where
  "committed_create =
     CreateObject creating_env HostType ''h2'' ''object Host h2 {}'' (Some []) None Empty example_world"








text \<open>
  A registry with a chain of dependents: the host \<open>h1\<close> of the package \<open>_api\<close>, its service
  \<open>h1!ping\<close> of the package \<open>_etc\<close>, and a downtime of that service, again of the package
  \<open>_api\<close>; the service has a dependent that is no config object as well.
\<close>

definition chain_runtime :: runtime where
  "chain_runtime =
     \<lparr> heap = (\<lambda>a. if a = 0 then
                       example_object ''Host'' ''h1'' ''_api''
                         ''/var/lib/icinga2/api/packages/_api/stage1/conf.d/hosts/h1.conf''
                     else if a = 1 then
                       example_object ''Service'' ''h1!ping'' ''_etc'' ''/etc/icinga2/conf.d/services.conf''
                     else
                       example_object ''Downtime'' ''h1!ping!dt1'' ''_api''
                         ''/var/lib/icinga2/api/packages/_api/stage1/conf.d/downtimes/dt1.conf''),
       objects = [(''Host'', ''h1'') \<mapsto> 0, (''Service'', ''h1!ping'') \<mapsto> 1,
                  (''Downtime'', ''h1!ping!dt1'') \<mapsto> 2],
       items = {(''Host'', ''h1''), (''Downtime'', ''h1!ping!dt1'')},
       parents = (\<lambda>a. if a = 0 then [ConfigObjectPtr 1]
                        else if a = 1 then [OtherObjectPtr 7, ConfigObjectPtr 2] else []) \<rparr>"

definition chain_world :: world where
  "chain_world =
     example_world
       \<lparr> files := [''/var/lib/icinga2/api/packages/_api/stage1/conf.d/hosts/h1.conf'' \<mapsto> (''object Host h1'', 420),
                   ''/etc/icinga2/conf.d/services.conf'' \<mapsto> (''object Service ping'', 420),
                   ''/var/lib/icinga2/api/packages/_api/stage1/conf.d/downtimes/dt1.conf''
                     \<mapsto> (''object Downtime dt1'', 420)],
         rt := chain_runtime \<rparr>"

definition chain_rank :: "nat \<Rightarrow> nat" where
  "chain_rank a = (if a = 0 then 2 else if a = 1 then 1 else 0)"

section \<open>Properties\<close>

subsection \<open>The concrete environment, evaluated\<close>

lemma example_env_simps:
  "GetPackageDir example_env = ''/var/lib/icinga2/api/packages''"
  "EscapeString example_env = example_escape"
  "recursive_directory_iterator example_env w dir = Inr [dir @ ''active.conf'', dir @ ''stage1'']"
  "NewStage example_env w package = ''stage1''"
  "DiagnosticInformation example_env ex verbose = exn_message ex"
  "AtomicFileFault example_env step p = None"
  "CompileText example_env p text zone package = Inr (Expression p text package)"
  "Evaluate example_env expr r = (None, r)"
  "CommitItems example_env r = (Inr (True, [], []), r)"
  "ActivateItems example_env new cookie r = (Inr True, r)"
  "UpdateObjectAuthority example_env r = (None, r)"
  "DeactivateFault example_env a = None"
  "UnregisterFault example_env a = None"
  "FAConfig example_env = 2"
  by (simp_all add: example_env_def)

lemma HostType_simps:
  "TypeName HostType = ''Host''" "PluralName HostType = ''Hosts''" "IsConfigType HostType"
  "ParseName HostType = None"
  by (simp_all add: HostType_def)

lemma example_world_simps:
  "files example_world = Map.empty"
  "dirs example_world = [''/var/lib/icinga2/api/packages/_api/stage1'' \<mapsto> 448]"
  "temps example_world = Map.empty"
  "packages example_world = {''_api''}"
  "active_stage example_world ''_api'' = ''stage1''"
  "log example_world = []"
  "rt example_world = empty_runtime"
  by (simp_all add: example_world_def)

lemma cluster_world_simps:
  "files cluster_world = [''/var/lib/icinga2/api/packages/_api/stage1/conf.d/hosts/h1.conf'' \<mapsto> (''object Host h1'', 420),
                   ''/etc/icinga2/conf.d/services.conf'' \<mapsto> (''object Service ping'', 420)]"
  "dirs cluster_world = [''/var/lib/icinga2/api/packages/_api/stage1'' \<mapsto> 448]"
  "temps cluster_world = Map.empty"
  "packages cluster_world = {''_api''}"
  "log cluster_world = []"
  "rt cluster_world = cluster_runtime"
  by (simp_all add: cluster_world_def example_world_def)

lemma cluster_runtime_simps:
  "heap cluster_runtime 0 = example_object ''Host'' ''h1'' ''_api''
                         ''/var/lib/icinga2/api/packages/_api/stage1/conf.d/hosts/h1.conf''"
  "heap cluster_runtime (Suc 0) = example_object ''Service'' ''h1!ping'' ''_etc'' ''/etc/icinga2/conf.d/services.conf''"
  "objects cluster_runtime = [(''Host'', ''h1'') \<mapsto> 0, (''Service'', ''h1!ping'') \<mapsto> 1]"
  "items cluster_runtime = {(''Host'', ''h1'')}"
  "parents cluster_runtime 0 = [ConfigObjectPtr 1]"
  "parents cluster_runtime (Suc 0) = []"
  by (simp_all add: cluster_runtime_def)

lemma example_object_simps:
  "ReflectionType (example_object type name package p) = type"
  "ObjectName (example_object type name package p) = name"
  "Package (example_object type name package p) = package"
  "DebugInfoPath (example_object type name package p) = p"
  "Active (example_object type name package p)"
  by (simp_all add: example_object_def)

lemma HostType_fields:
  "GetFieldId HostType ''state'' = 2" "GetFieldId HostType ''address'' = 1"
  "GetFieldId HostType ''bogus'' = - 1"
  "GetFieldInfo HostType 2 = \<lparr>Name = ''state'', Attributes = 4\<rparr>"
  "GetFieldInfo HostType 1 = \<lparr>Name = ''address'', Attributes = 2\<rparr>"
  by (simp_all add: GetFieldId_def GetFieldInfo_def HostType_def)

lemma creating_env_simps:
  "GetPackageDir creating_env = ''/var/lib/icinga2/api/packages''"
  "EscapeString creating_env = example_escape"
  "AtomicFileFault creating_env step p = None"
  "CompileText creating_env p text zone package = Inr (Expression p text package)"
  "Evaluate creating_env expr r = (None, r)"
  "CommitItems creating_env r =
     (Inr (True, [], [(''Host'', ''h2'')]),
      r\<lparr>objects := (objects r)((''Host'', ''h2'') \<mapsto> 2), items := insert (''Host'', ''h2'') (items r)\<rparr>)"
  "ActivateItems creating_env new cookie r = (Inr True, r)"
  "UpdateObjectAuthority creating_env r = (None, r)"
  by (simp_all add: creating_env_def example_env_def)


lemma orphan_world_simps:
  "files orphan_world = [path_h2 \<mapsto> (''stale'', 420)]"
  "temps orphan_world = Map.empty"
  "packages orphan_world = {''_api''}"
  "active_stage orphan_world ''_api'' = ''stage1''"
  "rt orphan_world = empty_runtime"
  by (simp_all add: orphan_world_def example_world_def)

lemma empty_runtime_simps:
  "objects empty_runtime = Map.empty" "items empty_runtime = {}"
  by (simp_all add: empty_runtime_def)



lemma stem1: "stem ''/var/lib/icinga2/api/packages/_api/stage1'' = ''stage1''"
  by (simp add: stem_def filename_def)

lemma ToLower_Hosts: "ToLower ''Hosts'' = ''hosts''"
  by (simp add: ToLower_def)

lemma path_h2:
  assumes "GetPackageDir env = ''/var/lib/icinga2/api/packages''"
      and "EscapeString env = example_escape"
      and "active_stage w ''_api'' = ''stage1''"
  shows "ComputeNewObjectConfigPath env HostType ''h2'' w = Inr (path_h2, w)"
  using assms
  by (simp add: ComputeNewObjectConfigPath_def GetConfigDir_def GetActiveStage_def Let_def
      EscapeName_def example_escape_def HostType_simps ToLower_Hosts path_h2_def)

lemma EscapeName_h1: "EscapeName example_env ''h1'' = ''h1''"
  by (simp add: EscapeName_def example_env_simps example_escape_def)

subsection \<open>Path composition\<close>

lemma RepairPackage_broken:
  "RepairPackage example_env ''_api'' broken_world =
     Inr (ActivateStage ''_api'' ''stage1''
           (Log LogInformation ''ConfigObjectUtility''
              ''Repairing config package '_api' with stage 'stage1'.'' broken_world))"
  by (simp add: RepairPackage_def example_env_simps Let_def broken_world_def example_world_simps stem1)

lemma GetConfigDir_broken:
  "GetConfigDir example_env broken_world =
     Inr (''/var/lib/icinga2/api/packages/_api/'',
          ActivateStage ''_api'' ''stage1''
           (Log LogInformation ''ConfigObjectUtility''
              ''Repairing config package '_api' with stage 'stage1'.'' broken_world))"
  by (simp add: GetConfigDir_def RepairPackage_broken GetActiveStage_def example_env_simps Let_def)
    (simp add: broken_world_def)

text \<open>
  Whenever no stage is active and the repair succeeds, \<open>GetConfigDir\<close> returns the bare
  prefix, although a stage is active afterwards.
\<close>

lemma GetConfigDir_after_repair:
  assumes "GetActiveStage w ''_api'' = []" and "RepairPackage env ''_api'' w = Inr w'"
  shows "GetConfigDir env w = Inr (GetPackageDir env @ ''/_api/'', w')"
    and "GetActiveStage w' ''_api'' \<noteq> []"
  using assms
  by (auto simp: GetConfigDir_def RepairPackage_def GetActiveStage_def ActivateStage_def Let_def
      split: sum.splits if_splits)

text \<open>
  C4. Every path returned has the form
  \<open><packageRoot>/_api/<activeStage>/conf.d/<typePluralLower>/<derivedName>.conf\<close>, also on
  the call in which \<open>GetConfigDir\<close> finds no active stage and repairs the package. The code
  does not do that: \<open>GetConfigDir\<close> reads the active stage into a local before calling
  \<open>RepairPackage\<close> and returns the prefix followed by that local, which is still empty.
  In \<open>broken_world\<close> the package \<open>_api\<close> has no active stage and holds the directory
  \<open>stage1\<close>: the repair activates \<open>stage1\<close>, and the directory returned is
  \<open>.../_api/\<close>, so that the path of the host \<open>h1\<close> is \<open>.../_api//conf.d/hosts/h1.conf\<close>.
\<close>

theorem GetConfigDir_self_heal_omits_stage:
  "map_sum id (\<lambda>r. (fst r, GetActiveStage (snd r) ''_api'')) (GetConfigDir example_env broken_world)
     = Inr (''/var/lib/icinga2/api/packages/_api/'', ''stage1'')
   \<and> map_sum id fst (ComputeNewObjectConfigPath example_env HostType ''h1'' broken_world)
     = Inr ''/var/lib/icinga2/api/packages/_api//conf.d/hosts/h1.conf''"
  by (simp add: ComputeNewObjectConfigPath_def GetConfigDir_broken GetActiveStage_def
      ActivateStage_def HostType_simps ToLower_Hosts EscapeName_h1 Let_def)

lemma example_escape_plain:
  "CHR ''a'' \<notin> set chars \<Longrightarrow> example_escape (replicate n (CHR ''a'')) chars b = replicate n (CHR ''a'')"
  by (induction n) (simp_all add: example_escape_def)

text \<open>
  C2, as amended. For every type other than \<open>Comment\<close> and \<open>Downtime\<close>,
  \<open>ComputeNewObjectConfigPath\<close> returns the configuration directory followed by
  \<open>/conf.d/\<close>, the lower-case plural name, \<open>/\<close>, the whole escaped name and \<open>.conf\<close>,
  whatever the length of the result; it fails only when \<open>GetConfigDir\<close> fails.
\<close>

theorem ComputeNewObjectConfigPath_long_path:
  assumes "TypeName type \<noteq> ''Comment''" and "TypeName type \<noteq> ''Downtime''"
  shows "ComputeNewObjectConfigPath env type fullName w =
           (case GetConfigDir env w of
              Inl ex \<Rightarrow> Inl ex
            | Inr (configDir, w') \<Rightarrow>
                Inr (configDir @ ''/conf.d/'' @ ToLower (PluralName type) @ ''/''
                       @ EscapeName env fullName @ ''.conf'', w'))"
  using assms by (simp add: ComputeNewObjectConfigPath_def Let_def split: sum.splits prod.splits)

lemma GetConfigDir_example:
  "GetConfigDir example_env example_world = Inr (''/var/lib/icinga2/api/packages/_api/stage1'', example_world)"
  by (simp add: GetConfigDir_def GetActiveStage_def example_world_simps example_env_simps Let_def)

text \<open>The host \<open>web/1\<close> in the example world.\<close>

theorem ComputeNewObjectConfigPath_long_path_witness:
  "TypeName HostType \<noteq> ''Comment'' \<and> TypeName HostType \<noteq> ''Downtime''
   \<and> ComputeNewObjectConfigPath example_env HostType ''web/1'' example_world
       = Inr (''/var/lib/icinga2/api/packages/_api/stage1/conf.d/hosts/web%2F1.conf'', example_world)"
proof -
  have a: "TypeName HostType \<noteq> ''Comment''" and b: "TypeName HostType \<noteq> ''Downtime''"
    by (simp_all add: HostType_simps)
  have e: "EscapeName example_env ''web/1'' = ''web%2F1''"
    by (simp add: EscapeName_def example_env_simps example_escape_def hexdigit_def)
  show ?thesis
    using ComputeNewObjectConfigPath_long_path [OF a b, of example_env "''web/1''" example_world]
    by (simp add: a b GetConfigDir_example e HostType_simps ToLower_Hosts)
qed

text \<open>
  C2 as stated asks for a failure when the path exceeds the limits of the filesystem.
  For a host whose name is 5000 letters long the function returns the path, which is
  longer than 4096 bytes, and its last component longer than 255.
\<close>

theorem ComputeNewObjectConfigPath_over_long_counterexample:
  "ComputeNewObjectConfigPath example_env HostType (replicate 5000 (CHR ''a'')) example_world
     = Inr (''/var/lib/icinga2/api/packages/_api/stage1/conf.d/hosts/''
              @ replicate 5000 (CHR ''a'') @ ''.conf'', example_world)
   \<and> 4096 < length (''/var/lib/icinga2/api/packages/_api/stage1/conf.d/hosts/''
              @ replicate 5000 (CHR ''a'') @ ''.conf'')"
proof -
  have e: "EscapeName example_env (replicate 5000 (CHR ''a'')) = replicate 5000 (CHR ''a'')"
    unfolding EscapeName_def by (simp add: example_env_simps example_escape_plain)
  show ?thesis
    by (simp add: ComputeNewObjectConfigPath_def GetConfigDir_example e HostType_simps ToLower_Hosts Let_def)
qed

subsection \<open>Rendering\<close>

lemma check_attrs_rejects:
  assumes "kv \<in> set kvs"
      and "GetFieldId type (takeWhile (\<lambda>c. c \<noteq> CHR ''.'') (fst kv)) < 0
           \<or> (Attributes (GetFieldInfo type (GetFieldId type (takeWhile (\<lambda>c. c \<noteq> CHR ''.'') (fst kv))))
                 AND FAConfig env) = 0
           \<or> fst kv = ''name''"
  shows "\<exists>msg. check_attrs env type kvs = Some (ScriptError msg)"
  using assms
proof (induction kvs)
  case Nil
  then show ?case by simp
next
  case (Cons x xs)
  show ?case
  proof (cases "x = kv")
    case True
    with Cons.prems(2) show ?thesis by (auto simp: Let_def)
  next
    case False
    with Cons.prems have "kv \<in> set xs" by simp
    from Cons.IH [OF this Cons.prems(2)] show ?thesis by (auto simp: Let_def)
  qed
qed

text \<open>
  C6. When the attributes contain a key whose part before the first dot names no field
  of the type, or names a field without the \<open>FAConfig\<close> flag, or a key equal to \<open>name\<close>,
  \<open>CreateObjectConfig\<close> throws a \<open>ScriptError\<close>. The function takes no world and returns
  none: it renders, or fails, without reading or writing a file.
\<close>

theorem CreateObjectConfig_rejects_invalid_attribute:
  assumes "(key, v) \<in> set kvs"
      and "GetFieldId type (takeWhile (\<lambda>c. c \<noteq> CHR ''.'') key) < 0
           \<or> (Attributes (GetFieldInfo type (GetFieldId type (takeWhile (\<lambda>c. c \<noteq> CHR ''.'') key)))
                 AND FAConfig env) = 0
           \<or> key = ''name''"
  shows "\<exists>msg. CreateObjectConfig env type fullName ignoreOnError templates (Some kvs)
                 = Inl (ScriptError msg)"
proof -
  from check_attrs_rejects [of "(key, v)" kvs type env] assms
  obtain msg where "check_attrs env type kvs = Some (ScriptError msg)" by auto
  then show ?thesis by (simp add: CreateObjectConfig_def Let_def)
qed

text \<open>A host with the attribute \<open>state\<close>, which is not a configuration field.\<close>

theorem CreateObjectConfig_rejects_invalid_attribute_witness:
  "(''state'', Number 1) \<in> set [(''address'', Str ''10.0.0.1''), (''state'', Number 1)]
   \<and> (Attributes (GetFieldInfo HostType (GetFieldId HostType (takeWhile (\<lambda>c. c \<noteq> CHR ''.'') ''state'')))
         AND FAConfig example_env) = 0
   \<and> CreateObjectConfig example_env HostType ''h1'' False None
        (Some [(''address'', Str ''10.0.0.1''), (''state'', Number 1)])
       = Inl (ScriptError ''Attribute is marked for internal use only and may not be set: state'')"
proof -
  have a: "(''state'', Number 1) \<in> set [(''address'', Str ''10.0.0.1''), (''state'', Number 1)]"
    by simp
  have b: "(Attributes (GetFieldInfo HostType (GetFieldId HostType (takeWhile (\<lambda>c. c \<noteq> CHR ''.'') ''state'')))
         AND FAConfig example_env) = 0"
    by (simp add: HostType_fields example_env_simps)
  from CreateObjectConfig_rejects_invalid_attribute [OF a disjI2 [OF disjI1 [OF b]],
      where fullName = "''h1''" and ignoreOnError = False and templates = None]
  obtain msg where m: "CreateObjectConfig example_env HostType ''h1'' False None
        (Some [(''address'', Str ''10.0.0.1''), (''state'', Number 1)]) = Inl (ScriptError msg)"
    by blast
  have "CreateObjectConfig example_env HostType ''h1'' False None
        (Some [(''address'', Str ''10.0.0.1''), (''state'', Number 1)])
       = Inl (ScriptError ''Attribute is marked for internal use only and may not be set: state'')"
    by (simp add: CreateObjectConfig_def Let_def HostType_fields example_env_simps HostType_simps)
  with a b show ?thesis by simp
qed

subsection \<open>Creating an object that exists\<close>

lemma CreateStorage_frame:
  "files (CreateStorage env w) = files w"
  "dirs (CreateStorage env w) = dirs w"
  "temps (CreateStorage env w) = temps w"
  "rt (CreateStorage env w) = rt w"
  by (simp_all add: CreateStorage_def Let_def ActivateStage_def CreatePackage_def Log_def)

lemma CreateStorage_exists: "''_api'' \<in> packages w \<Longrightarrow> CreateStorage env w = w"
  by (simp add: CreateStorage_def PackageExists_def)

text \<open>
  C7. When an object of the type and name is registered, \<open>CreateObject\<close> adds
  \<open>Object '<fullName>' already exists.\<close> to the errors and returns false. Nothing but
  \<open>CreateStorage\<close> has run: no path is computed, no directory made, no pending write
  opened, so files, directories, temporary files and the registry are those of the start,
  and the whole world is when the package \<open>_api\<close> exists already.
\<close>

theorem CreateObject_already_exists:
  assumes "IsConfigType type" and "GetObject (rt w) type fullName = Some a" and "errors = Some es"
  shows "CreateObject env type fullName config errors diagnosticInformation cookie w =
           (Returned False, Some (es @ [''Object '' @ sq @ fullName @ sq @ '' already exists.'']),
            diagnosticInformation, CreateStorage env w)
         \<and> files (CreateStorage env w) = files w
         \<and> dirs (CreateStorage env w) = dirs w
         \<and> temps (CreateStorage env w) = temps w
         \<and> rt (CreateStorage env w) = rt w
         \<and> (PackageExists w ''_api'' \<longrightarrow> CreateStorage env w = w)"
  using assms
  by (simp add: CreateObject_def Let_def CreateStorage_frame CreateStorage_exists PackageExists_def)

text \<open>Creating the host \<open>h1\<close> a second time.\<close>

theorem CreateObject_already_exists_witness:
  "IsConfigType HostType \<and> GetObject (rt cluster_world) HostType ''h1'' = Some 0
   \<and> CreateObject example_env HostType ''h1'' ''object Host h1'' (Some []) None Empty cluster_world =
       (Returned False, Some [''Object 'h1' already exists.''], None, cluster_world)"
proof -
  have a: "IsConfigType HostType" by (simp add: HostType_simps)
  have b: "GetObject (rt cluster_world) HostType ''h1'' = Some 0"
    by (simp add: GetObject_def cluster_world_simps cluster_runtime_simps HostType_simps)
  have c: "PackageExists cluster_world ''_api''"
    by (simp add: PackageExists_def cluster_world_simps)
  from CreateObject_already_exists [OF a b refl, where env = example_env
      and config = "''object Host h1''" and es = "[]" and diagnosticInformation = None
      and cookie = Empty] c
  show ?thesis using a b by simp
qed

subsection \<open>Deleting without cascade\<close>

text \<open>
  C5. Deleting, without cascade, an object that has at least one dependent fails: the
  result is false, the message naming the object and its type is added to the errors
  (when an error list is given), and the world is unchanged: every object is registered
  and active as before and no file is removed. \<open>DeleteObject\<close> does the same for an object
  of the package \<open>_api\<close>.
\<close>

theorem DeleteObjectHelper_refuses_without_cascade:
  assumes "GetParents (rt w) object \<noteq> []" and "0 < fuel"
  shows "DeleteObjectHelper fuel env object False errors diagnosticInformation cookie w =
           Some (False,
                 map_option (\<lambda>es. es @ [''Object '' @ sq @ ObjectName (heap (rt w) object) @ sq
                     @ '' of type '' @ sq @ ReflectionType (heap (rt w) object) @ sq
                     @ '' cannot be deleted because other objects depend on it. ''
                     @ ''Use cascading delete to delete it anyway.'']) errors,
                 diagnosticInformation, w)
         \<and> (Package (heap (rt w) object) = ''_api'' \<longrightarrow>
              DeleteObject fuel env object False errors diagnosticInformation cookie w =
                DeleteObjectHelper fuel env object False errors diagnosticInformation cookie w)"
proof -
  from assms(2) obtain n where "fuel = Suc n" by (cases fuel) auto
  with assms(1) show ?thesis by (simp add: Let_def DeleteObject_def)
qed

text \<open>Deleting the host \<open>h1\<close>, on which the service \<open>h1!ping\<close> depends.\<close>

theorem DeleteObjectHelper_refuses_without_cascade_witness:
  "GetParents (rt cluster_world) 0 \<noteq> [] \<and> (0::nat) < 1
   \<and> Package (heap (rt cluster_world) 0) = ''_api''
   \<and> DeleteObject 1 example_env 0 False (Some []) None Empty cluster_world =
       Some (False,
             Some [''Object 'h1' of type 'Host' cannot be deleted because other objects depend on it. Use cascading delete to delete it anyway.''],
             None, cluster_world)"
proof -
  have a: "GetParents (rt cluster_world) 0 \<noteq> []"
    by (simp add: GetParents_def cluster_world_simps cluster_runtime_simps)
  have b: "(0::nat) < 1" by simp
  have c: "Package (heap (rt cluster_world) 0) = ''_api''"
    by (simp add: cluster_world_simps cluster_runtime_simps example_object_simps)
  from DeleteObjectHelper_refuses_without_cascade [OF a b, where env = example_env
      and errors = "Some []" and diagnosticInformation = None and cookie = Empty] c
  show ?thesis using a
    by (simp add: cluster_world_simps cluster_runtime_simps example_object_simps)
qed

subsection \<open>Creating an object: what a call leaves behind\<close>

lemma GetConfigDir_frame:
  assumes "GetConfigDir env w = Inr (d, w')"
  shows "files w' = files w" and "dirs w' = dirs w" and "temps w' = temps w" and "rt w' = rt w"
  using assms
  by (auto simp: GetConfigDir_def RepairPackage_def Let_def ActivateStage_def Log_def
      split: if_splits sum.splits option.splits)

lemma ComputeNewObjectConfigPath_frame:
  assumes "ComputeNewObjectConfigPath env type fullName w = Inr (p, w')"
  shows "files w' = files w" and "dirs w' = dirs w" and "temps w' = temps w" and "rt w' = rt w"
  using assms GetConfigDir_frame
  by (auto simp: ComputeNewObjectConfigPath_def Let_def split: sum.splits prod.splits if_splits)

lemma fold_MkDir_frame:
  "files (fold (\<lambda>d. MkDir d mode) ds w) = files w"
  "temps (fold (\<lambda>d. MkDir d mode) ds w) = temps w"
  "rt (fold (\<lambda>d. MkDir d mode) ds w) = rt w"
  "log (fold (\<lambda>d. MkDir d mode) ds w) = log w"
  by (induction ds arbitrary: w) (simp_all add: MkDir_def)

lemma MkDirP_frame:
  "files (MkDirP p mode w) = files w" "temps (MkDirP p mode w) = temps w"
  "rt (MkDirP p mode w) = rt w" "log (MkDirP p mode w) = log w"
  by (simp_all add: MkDirP_def fold_MkDir_frame)

lemma fold_MkDir_dirs:
  "dirs (fold (\<lambda>d. MkDir d mode) ds w) x = dirs w x
   \<or> (dirs w x = None \<and> dirs (fold (\<lambda>d. MkDir d mode) ds w) x = Some mode)"
proof (induction ds arbitrary: w)
  case Nil
  then show ?case by simp
next
  case (Cons d ds)
  have step: "dirs (MkDir d mode w) x = dirs w x
              \<or> (dirs w x = None \<and> dirs (MkDir d mode w) x = Some mode)"
    by (auto simp: MkDir_def)
  from Cons.IH [of "MkDir d mode w"] step show ?case by auto
qed

lemma MkDirP_dirs:
  "dirs (MkDirP p mode w) x = dirs w x \<or> (dirs w x = None \<and> dirs (MkDirP p mode w) x = Some mode)"
  by (simp add: MkDirP_def fold_MkDir_dirs)

lemma AtomicFile_frame:
  "files (AtomicFile_open p mode w) = files w" "dirs (AtomicFile_open p mode w) = dirs w"
  "rt (AtomicFile_open p mode w) = rt w" "log (AtomicFile_open p mode w) = log w"
  "temps (AtomicFile_open p mode w) = (temps w)(p \<mapsto> ([], mode))"
  "files (AtomicFile_write p text w) = files w" "dirs (AtomicFile_write p text w) = dirs w"
  "rt (AtomicFile_write p text w) = rt w" "log (AtomicFile_write p text w) = log w"
  "files (AtomicFile_destroy p w) = files w" "dirs (AtomicFile_destroy p w) = dirs w"
  "rt (AtomicFile_destroy p w) = rt w" "log (AtomicFile_destroy p w) = log w"
  "temps (AtomicFile_destroy p w) = (temps w)(p := None)"
  by (simp_all add: AtomicFile_open_def AtomicFile_write_def AtomicFile_destroy_def split: option.splits)

lemma AtomicFile_write_open:
  "temps (AtomicFile_write p text (AtomicFile_open p mode w)) = (temps w)(p \<mapsto> (text, mode))"
  by (simp add: AtomicFile_open_def AtomicFile_write_def)



lemma report_exceptions_frame:
  assumes "report_exceptions env notice exs errors diag w = (errors', diag', w')"
  shows "files w' = files w" and "temps w' = temps w" and "dirs w' = dirs w" and "rt w' = rt w"
  using assms by (auto simp: report_exceptions_def Log_def split: option.splits)

lemma CreateObject_try_cases:
  assumes run: "CreateObject_try env type fullName p expr errors diag cookie w = (out, errors', diag', w')"
  shows "dirs w' = dirs w \<and>
         ((out = Returned True \<and> GetObject (rt w') type fullName \<noteq> None
             \<and> files w' = files (AtomicFile_Commit p w) \<and> temps w' = temps (AtomicFile_Commit p w))
          \<or> (files w' = files w \<and> temps w' = temps w
              \<and> (out = Returned True \<longrightarrow>
                    GetObject (rt w') type fullName = None \<and> errors' = errors \<and> diag' = diag)))"
proof -
  obtain ev r1 where E: "Evaluate env expr (rt w) = (ev, r1)" by fastforce
  show ?thesis
  proof (cases ev)
    case (Some ex)
    with run E show ?thesis by (auto simp: CreateObject_try_def)
  next
    case None
    note ev = None
    obtain cr r2 where C: "CommitItems env r1 = (cr, r2)" by fastforce
    show ?thesis
    proof (cases cr)
      case (Inl ex)
      with run E ev C show ?thesis by (auto simp: CreateObject_try_def)
    next
      case (Inr c)
      obtain ok exs newItems where c: "c = (ok, exs, newItems)" by (cases c) auto
      show ?thesis
      proof (cases ok)
        case False
        with run E ev C Inr c
        have "report_exceptions env (''Failed to commit config item '' @ sq @ fullName @ sq @ ''.'')
                exs errors diag (w\<lparr>rt := r2\<rparr>) = (errors', diag', w') \<and> out = Returned False"
          by (auto simp: CreateObject_try_def split: prod.splits)
        with report_exceptions_frame [of env _ exs errors diag "w\<lparr>rt := r2\<rparr>" errors' diag' w']
        show ?thesis by auto
      next
        case True
        note ok = True
        obtain ar r3 where A: "ActivateItems env newItems cookie r2 = (ar, r3)" by fastforce
        show ?thesis
        proof (cases ar)
          case (Inl ex)
          with run E ev C Inr c ok A show ?thesis by (auto simp: CreateObject_try_def)
        next
          case (Inr activated)
          note ar = Inr
          show ?thesis
          proof (cases activated)
            case False
            with run E ev C \<open>cr = Inr c\<close> c ok A ar
            have "report_exceptions env (''Failed to activate config object '' @ sq @ fullName @ sq @ ''.'')
                    exs errors diag (w\<lparr>rt := r3\<rparr>) = (errors', diag', w') \<and> out = Returned False"
              by (auto simp: CreateObject_try_def split: prod.splits)
            with report_exceptions_frame [of env _ exs errors diag "w\<lparr>rt := r3\<rparr>" errors' diag' w']
            show ?thesis by auto
          next
            case True
            note act = True
            obtain ur r4 where U: "(if TypeName type \<noteq> ''Comment'' \<and> TypeName type \<noteq> ''Downtime''
                                  then UpdateObjectAuthority env r3 else (None, r3)) = (ur, r4)"
              by fastforce
            from run E ev C \<open>cr = Inr c\<close> c ok A ar act
            have run': "(case (ur, r4) of
                              (Some ex, r4) \<Rightarrow>
                                 (Returned False, fst (catch_exception env ex errors diag),
                                  snd (catch_exception env ex errors diag), w\<lparr>rt := r4\<rparr>)
                            | (None, r4) \<Rightarrow>
                                if \<not> IsConfigType type then
                                  (NullDereference, errors, diag, w\<lparr>rt := r4\<rparr>)
                                else
                                  (case GetObject r4 type fullName of
                                     Some obj \<Rightarrow>
                                       (case AtomicFileFault env Commit p of
                                          Some ex \<Rightarrow> (Returned False, fst (catch_exception env ex errors diag),
                                  snd (catch_exception env ex errors diag), w\<lparr>rt := r4\<rparr>)
                                        | None \<Rightarrow>
                                            (Returned True, errors, diag,
                                             Log LogInformation ''ConfigObjectUtility''
                                               (''Created and activated object '' @ sq @ fullName @ sq
                                                  @ '' of type '' @ sq @ TypeName type @ sq @ ''.'')
                                               (AtomicFile_Commit p (w\<lparr>rt := r4\<rparr>))))
                                   | None \<Rightarrow>
                                       (Returned True, errors, diag,
                                        Log LogNotice ''ConfigObjectUtility''
                                          (''Object '' @ sq @ fullName @ sq
                                             @ '' was not created but ignored due to errors.'')
                                          (w\<lparr>rt := r4\<rparr>)))) = (out, errors', diag', w')"
              unfolding CreateObject_try_def Let_def U [symmetric] by simp
            show ?thesis
            proof (cases ur)
              case (Some ex)
              with run' show ?thesis by auto
            next
              case None
              with run' show ?thesis
                by (auto simp: Log_def AtomicFile_Commit_def split: if_splits option.splits)
            qed
          qed
        qed
      qed
    qed
  qed
qed

lemma CreateObject_cases:
  assumes run: "CreateObject env type fullName config errors diag cookie w = (out, errors', diag', w')"
  shows "(\<forall>x. dirs w' x = dirs w x \<or> (dirs w x = None \<and> dirs w' x = Some 448)) \<and>
         ((out = Returned True \<and> GetObject (rt w') type fullName \<noteq> None
             \<and> (\<exists>p w2. ComputeNewObjectConfigPath env type fullName (CreateStorage env w) = Inr (p, w2)
                    \<and> files w' = (files w)(p \<mapsto> (config, 420))
                    \<and> temps w' = (temps w)(p := None)))
          \<or> (files w' = files w
              \<and> (out \<noteq> NullDereference \<longrightarrow> dom (temps w') \<subseteq> dom (temps w))
              \<and> (out = Returned True \<longrightarrow>
                    GetObject (rt w') type fullName = None \<and> errors' = errors \<and> diag' = diag)))"
proof -
  let ?w1 = "CreateStorage env w"
  note cs = CreateStorage_frame [of env w]
  show ?thesis
  proof (cases "IsConfigType type \<and> GetObject (rt ?w1) type fullName \<noteq> None")
    case True
    with run cs show ?thesis
      by (auto simp: CreateObject_def Let_def split: option.splits)
  next
    case False
    note fresh = False
    show ?thesis
    proof (cases "ComputeNewObjectConfigPath env type fullName ?w1")
      case (Inl ex)
      with run fresh cs show ?thesis
        by (auto simp: CreateObject_def Let_def split: option.splits)
    next
      case (Inr pw)
      obtain p w2 where pw: "pw = (p, w2)" by (cases pw) auto
      with Inr have P: "ComputeNewObjectConfigPath env type fullName ?w1 = Inr (p, w2)" by simp
      note fr = ComputeNewObjectConfigPath_frame [OF P]
      define w3 where "w3 = MkDirP (DirName p) 448 w2"
      define w5 where "w5 = AtomicFile_write p config (AtomicFile_open p 420 w3)"
      have f3: "files w3 = files w" and t3: "temps w3 = temps w"
        by (simp_all add: w3_def MkDirP_frame fr cs)
      have d3: "\<forall>x. dirs w3 x = dirs w x \<or> (dirs w x = None \<and> dirs w3 x = Some 448)"
        using MkDirP_dirs [of "DirName p" 448 w2] by (simp add: w3_def fr cs)
      have f5: "files w5 = files w" and d5: "dirs w5 = dirs w3"
        and t5: "temps w5 = (temps w)(p \<mapsto> (config, 420))"
        by (simp_all add: w5_def AtomicFile_frame AtomicFile_write_open f3 t3)
      from run fresh P
      have run': "(case AtomicFileFault env Open p of
                      Some ex \<Rightarrow> (Thrown ex, errors, diag, w3)
                    | None \<Rightarrow>
                        (case AtomicFileFault env Write p of
                              Some ex \<Rightarrow>
                                (Thrown ex, errors, diag, AtomicFile_destroy p (AtomicFile_open p 420 w3))
                            | None \<Rightarrow>
                                (case AtomicFileFault env Flush p of
                                      Some ex \<Rightarrow> (Thrown ex, errors, diag, AtomicFile_destroy p w5)
                                    | None \<Rightarrow>
                                        (case CompileText env p config [] ''_api'' of
                                           Inl ex \<Rightarrow> (Thrown ex, errors, diag, AtomicFile_destroy p w5)
                                         | Inr expr \<Rightarrow>
                                             (case CreateObject_try env type fullName p expr errors
                                                     diag cookie w5 of
                                                (out, errors', diag', w6) \<Rightarrow>
                                                  (out, errors', diag',
                                                   if out = NullDereference then w6
                                                   else AtomicFile_destroy p w6))))))
                   = (out, errors', diag', w')"
        by (simp only: CreateObject_def Let_def if_not_P [OF fresh] if_False sum.case prod.case
            w3_def w5_def)
      have uncommitted: ?thesis
        if "files w' = files w" and "dom (temps w') \<subseteq> dom (temps w)" and "dirs w' = dirs w3"
          and "out = Returned True \<longrightarrow>
                 GetObject (rt w') type fullName = None \<and> errors' = errors \<and> diag' = diag"
        using that d3 by auto
      have released: "dom ((temps w)(p := None)) \<subseteq> dom (temps w)" by auto
      show ?thesis
      proof (cases "AtomicFileFault env Open p")
        case (Some ex)
        with run' have "out = Thrown ex" and "w' = w3" by simp_all
        then show ?thesis by (intro uncommitted) (simp_all add: f3 t3)
      next
        case None
        note op = None
        show ?thesis
        proof (cases "AtomicFileFault env Write p")
          case (Some ex)
          with run' op have "out = Thrown ex" and "w' = AtomicFile_destroy p (AtomicFile_open p 420 w3)"
            by simp_all
          then show ?thesis
            by (intro uncommitted) (simp_all add: AtomicFile_frame f3 t3 released)
        next
          case None
          note wr = None
          show ?thesis
          proof (cases "AtomicFileFault env Flush p")
            case (Some ex)
            with run' op wr have "out = Thrown ex" and "w' = AtomicFile_destroy p w5" by simp_all
            then show ?thesis
              by (intro uncommitted) (simp_all add: AtomicFile_frame f5 t5 d5 released)
          next
            case None
            note fl = None
            show ?thesis
            proof (cases "CompileText env p config [] ''_api''")
              case (Inl ex)
              with run' op wr fl have "out = Thrown ex" and "w' = AtomicFile_destroy p w5"
                by simp_all
              then show ?thesis
                by (intro uncommitted) (simp_all add: AtomicFile_frame f5 t5 d5 released)
            next
              case (Inr expr)
              obtain out0 e0 d0 w6 where
                T: "CreateObject_try env type fullName p expr errors diag cookie w5 = (out0, e0, d0, w6)"
                by (metis prod_cases4)
              with run' op wr fl Inr
              have res: "out = out0" "errors' = e0" "diag' = d0"
                "w' = (if out0 = NullDereference then w6 else AtomicFile_destroy p w6)"
                by auto
              have c5: "files (AtomicFile_Commit p w5) = (files w)(p \<mapsto> (config, 420))"
                "temps (AtomicFile_Commit p w5) = (temps w)(p := None)"
                by (simp_all add: AtomicFile_Commit_def t5 f5)
              from CreateObject_try_cases [OF T]
              have dd: "dirs w6 = dirs w5"
                and alt: "(out0 = Returned True \<and> GetObject (rt w6) type fullName \<noteq> None
                             \<and> files w6 = files (AtomicFile_Commit p w5)
                             \<and> temps w6 = temps (AtomicFile_Commit p w5))
                          \<or> (files w6 = files w5 \<and> temps w6 = temps w5
                              \<and> (out0 = Returned True \<longrightarrow>
                                    GetObject (rt w6) type fullName = None \<and> e0 = errors \<and> d0 = diag))"
                by simp_all
              have dirs': "dirs w' = dirs w3"
                using res dd d5 by (simp add: AtomicFile_frame)
              from alt show ?thesis
              proof
                assume a: "out0 = Returned True \<and> GetObject (rt w6) type fullName \<noteq> None
                             \<and> files w6 = files (AtomicFile_Commit p w5)
                             \<and> temps w6 = temps (AtomicFile_Commit p w5)"
                with res c5 have "out = Returned True" "GetObject (rt w') type fullName \<noteq> None"
                  "files w' = (files w)(p \<mapsto> (config, 420))" "temps w' = (temps w)(p := None)"
                  by (simp_all add: AtomicFile_frame)
                with P dirs' d3 show ?thesis by auto
              next
                assume b: "files w6 = files w5 \<and> temps w6 = temps w5
                              \<and> (out0 = Returned True \<longrightarrow>
                                    GetObject (rt w6) type fullName = None \<and> e0 = errors \<and> d0 = diag)"
                have "out \<noteq> NullDereference \<longrightarrow> temps w' = (temps w)(p := None)"
                  using res b t5 by (simp add: AtomicFile_frame)
                moreover have "out = NullDereference \<longrightarrow> out \<noteq> Returned True" by simp
                moreover have "files w' = files w" using res b f5 by (simp add: AtomicFile_frame)
                moreover have "out = Returned True \<longrightarrow>
                    GetObject (rt w') type fullName = None \<and> errors' = errors \<and> diag' = diag"
                  using res b by (simp add: AtomicFile_frame)
                ultimately show ?thesis using dirs' d3 released by auto
              qed
            qed
          qed
        qed
      qed
    qed
  qed
qed

lemma CreateObject_run:
  assumes "\<not> (IsConfigType type \<and> GetObject (rt w) type fullName \<noteq> None)"
      and "ComputeNewObjectConfigPath env type fullName (CreateStorage env w) = Inr (p, w2)"
      and "AtomicFileFault env Open p = None"
      and "AtomicFileFault env Write p = None"
      and "AtomicFileFault env Flush p = None"
      and "CompileText env p config [] ''_api'' = Inr expr"
  shows "CreateObject env type fullName config errors diag cookie w =
           (case CreateObject_try env type fullName p expr errors diag cookie
                   (AtomicFile_write p config (AtomicFile_open p 420 (MkDirP (DirName p) 448 w2))) of
              (out, errors', diag', w6) \<Rightarrow>
                (out, errors', diag',
                 if out = NullDereference then w6 else AtomicFile_destroy p w6))"
proof -
  from assms(1) have "\<not> (IsConfigType type \<and> GetObject (rt (CreateStorage env w)) type fullName \<noteq> None)"
    by (simp add: CreateStorage_frame)
  then show ?thesis
    by (simp only: CreateObject_def Let_def if_not_P if_False assms sum.case prod.case option.case)
qed

lemma CreateObject_try_ignored:
  assumes "Evaluate env expr (rt w) = (None, r1)"
      and "CommitItems env r1 = (Inr (True, exs, newItems), r2)"
      and "ActivateItems env newItems cookie r2 = (Inr True, r3)"
      and "(if TypeName type \<noteq> ''Comment'' \<and> TypeName type \<noteq> ''Downtime''
            then UpdateObjectAuthority env r3 else (None, r3)) = (None, r4)"
      and "IsConfigType type"
      and "GetObject r4 type fullName = None"
  shows "CreateObject_try env type fullName p expr errors diag cookie w =
           (Returned True, errors, diag,
            Log LogNotice ''ConfigObjectUtility''
              (''Object '' @ sq @ fullName @ sq @ '' was not created but ignored due to errors.'')
              (w\<lparr>rt := r4\<rparr>))"
  by (simp only: CreateObject_try_def Let_def assms prod.case option.case sum.case
      not_True_eq_False if_False not_False_eq_True if_True simp_thms)

lemma CreateObject_try_committed:
  assumes "Evaluate env expr (rt w) = (None, r1)"
      and "CommitItems env r1 = (Inr (True, exs, newItems), r2)"
      and "ActivateItems env newItems cookie r2 = (Inr True, r3)"
      and "(if TypeName type \<noteq> ''Comment'' \<and> TypeName type \<noteq> ''Downtime''
            then UpdateObjectAuthority env r3 else (None, r3)) = (None, r4)"
      and "IsConfigType type"
      and "GetObject r4 type fullName = Some a"
      and "AtomicFileFault env Commit p = None"
  shows "CreateObject_try env type fullName p expr errors diag cookie w =
           (Returned True, errors, diag,
            Log LogInformation ''ConfigObjectUtility''
              (''Created and activated object '' @ sq @ fullName @ sq
                 @ '' of type '' @ sq @ TypeName type @ sq @ ''.'')
              (AtomicFile_Commit p (w\<lparr>rt := r4\<rparr>)))"
  by (simp only: CreateObject_try_def Let_def assms prod.case option.case sum.case
      not_True_eq_False if_False not_False_eq_True if_True simp_thms)


lemma pending_world_frame:
  "rt (AtomicFile_write p config (AtomicFile_open p mode (MkDirP d dmode w))) = rt w"
  "files (AtomicFile_write p config (AtomicFile_open p mode (MkDirP d dmode w))) = files w"
  "log (AtomicFile_write p config (AtomicFile_open p mode (MkDirP d dmode w))) = log w"
  by (simp_all add: AtomicFile_frame MkDirP_frame)

subsection \<open>An object that the activation ignored\<close>

text \<open>
  C3. When nothing fails up to the activation (the path is computed, the pending write
  is opened, written and flushed, the text compiles and evaluates, \<open>CommitItems\<close> and
  \<open>ActivateItems\<close> return true) and the registry, asked again, has no object of that
  type and name, \<open>CreateObject\<close> returns true with the errors and the diagnostics as
  they were: the files are those of the start, the pending write for the path is gone,
  and the only trace is the notice in the log.
\<close>

theorem CreateObject_ignored_object_reports_success:
  assumes "IsConfigType type"
      and "GetObject (rt w) type fullName = None"
      and "ComputeNewObjectConfigPath env type fullName (CreateStorage env w) = Inr (p, w2)"
      and "AtomicFileFault env Open p = None"
      and "AtomicFileFault env Write p = None"
      and "AtomicFileFault env Flush p = None"
      and "CompileText env p config [] ''_api'' = Inr expr"
      and "Evaluate env expr (rt w) = (None, r1)"
      and "CommitItems env r1 = (Inr (True, exs, newItems), r2)"
      and "ActivateItems env newItems cookie r2 = (Inr True, r3)"
      and "(if TypeName type \<noteq> ''Comment'' \<and> TypeName type \<noteq> ''Downtime''
            then UpdateObjectAuthority env r3 else (None, r3)) = (None, r4)"
      and "GetObject r4 type fullName = None"
  shows "\<exists>w'. CreateObject env type fullName config errors diagnosticInformation cookie w =
                (Returned True, errors, diagnosticInformation, w')
              \<and> files w' = files w \<and> temps w' p = None \<and> rt w' = r4
              \<and> log w' = log w2 @ [(LogNotice, ''ConfigObjectUtility'',
                    ''Object '' @ sq @ fullName @ sq @ '' was not created but ignored due to errors.'')]"
proof -
  define w5 where "w5 = AtomicFile_write p config (AtomicFile_open p 420 (MkDirP (DirName p) 448 w2))"
  note fr = ComputeNewObjectConfigPath_frame [OF assms(3)] CreateStorage_frame [of env w]
  have r5: "rt w5 = rt w" and f5: "files w5 = files w" and l5: "log w5 = log w2"
    by (simp_all add: w5_def pending_world_frame fr)
  have fresh: "\<not> (IsConfigType type \<and> GetObject (rt w) type fullName \<noteq> None)"
    using assms(2) by simp
  have ev: "Evaluate env expr (rt w5) = (None, r1)" using assms(8) r5 by simp
  have "CreateObject env type fullName config errors diagnosticInformation cookie w =
          (Returned True, errors, diagnosticInformation,
           AtomicFile_destroy p
             (Log LogNotice ''ConfigObjectUtility''
               (''Object '' @ sq @ fullName @ sq @ '' was not created but ignored due to errors.'')
               (w5\<lparr>rt := r4\<rparr>)))"
    unfolding CreateObject_run [OF fresh assms(3) assms(4) assms(5) assms(6) assms(7)]
      w5_def [symmetric]
      CreateObject_try_ignored [OF ev assms(9) assms(10) assms(11) assms(1) assms(12)]
    by simp
  moreover have "files (AtomicFile_destroy p
             (Log LogNotice ''ConfigObjectUtility'' m (w5\<lparr>rt := r4\<rparr>))) = files w" for m
    by (simp add: AtomicFile_frame Log_def f5)
  moreover have "temps (AtomicFile_destroy p
             (Log LogNotice ''ConfigObjectUtility'' m (w5\<lparr>rt := r4\<rparr>))) p = None" for m
    by (simp add: AtomicFile_frame)
  moreover have "rt (AtomicFile_destroy p
             (Log LogNotice ''ConfigObjectUtility'' m (w5\<lparr>rt := r4\<rparr>))) = r4" for m
    by (simp add: AtomicFile_frame Log_def)
  moreover have "log (AtomicFile_destroy p
             (Log LogNotice ''ConfigObjectUtility'' m (w5\<lparr>rt := r4\<rparr>)))
           = log w2 @ [(LogNotice, ''ConfigObjectUtility'', m)]" for m
    by (simp add: AtomicFile_frame Log_def l5)
  ultimately show ?thesis by blast
qed

lemma CreateStorage_example:
  "CreateStorage env example_world = example_world" "CreateStorage env orphan_world = orphan_world"
  by (simp_all add: CreateStorage_exists example_world_simps orphan_world_simps)

text \<open>The host \<open>h2\<close> in an environment whose commit and activation register nothing.\<close>

theorem CreateObject_ignored_object_reports_success_witness:
  "IsConfigType HostType
   \<and> GetObject (rt example_world) HostType ''h2'' = None
   \<and> ComputeNewObjectConfigPath example_env HostType ''h2'' (CreateStorage example_env example_world)
       = Inr (path_h2, example_world)
   \<and> CommitItems example_env empty_runtime = (Inr (True, [], []), empty_runtime)
   \<and> ActivateItems example_env [] Empty empty_runtime = (Inr True, empty_runtime)
   \<and> fst ignored_create = Returned True
   \<and> fst (snd ignored_create) = Some []
   \<and> files (world_of ignored_create) = files example_world
   \<and> temps (world_of ignored_create) path_h2 = None
   \<and> GetObject (rt (world_of ignored_create)) HostType ''h2'' = None
   \<and> log (world_of ignored_create)
       = [(LogNotice, ''ConfigObjectUtility'', ''Object 'h2' was not created but ignored due to errors.'')]"
proof -
  have a: "IsConfigType HostType" by (simp add: HostType_simps)
  have b: "GetObject (rt example_world) HostType ''h2'' = None"
    by (simp add: GetObject_def example_world_simps empty_runtime_simps)
  have c: "ComputeNewObjectConfigPath example_env HostType ''h2'' (CreateStorage example_env example_world)
       = Inr (path_h2, example_world)"
    by (simp add: CreateStorage_example path_h2 example_env_simps example_world_simps)
  have d: "AtomicFileFault example_env step path_h2 = None" for step
    by (simp add: example_env_simps)
  have e: "CompileText example_env path_h2 ''object Host h2 {}'' [] ''_api''
             = Inr (Expression path_h2 ''object Host h2 {}'' ''_api'')"
    by (simp add: example_env_simps)
  have f: "Evaluate example_env (Expression path_h2 ''object Host h2 {}'' ''_api'') (rt example_world)
             = (None, empty_runtime)"
    by (simp add: example_env_simps example_world_simps)
  have g: "CommitItems example_env empty_runtime = (Inr (True, [], []), empty_runtime)"
    by (simp add: example_env_simps)
  have h: "ActivateItems example_env [] Empty empty_runtime = (Inr True, empty_runtime)"
    by (simp add: example_env_simps)
  have i: "(if TypeName HostType \<noteq> ''Comment'' \<and> TypeName HostType \<noteq> ''Downtime''
            then UpdateObjectAuthority example_env empty_runtime else (None, empty_runtime))
           = (None, empty_runtime)"
    by (simp add: example_env_simps)
  have j: "GetObject empty_runtime HostType ''h2'' = None"
    by (simp add: GetObject_def empty_runtime_simps)
  from CreateObject_ignored_object_reports_success [OF a b c d d d e f g h i j,
      where errors = "Some []" and diagnosticInformation = None]
  obtain w' where run: "ignored_create = (Returned True, Some [], None, w')"
    and w': "files w' = files example_world" "temps w' path_h2 = None" "rt w' = empty_runtime"
      "log w' = log example_world @ [(LogNotice, ''ConfigObjectUtility'',
                    ''Object '' @ sq @ ''h2'' @ sq @ '' was not created but ignored due to errors.'')]"
    unfolding ignored_create_def by blast
  show ?thesis unfolding run world_of_def using a b c g h j w'
    by (simp add: example_world_simps)
qed

subsection \<open>The example runs, evaluated\<close>

lemma orphan_world_more:
  "dirs orphan_world = [''/var/lib/icinga2/api/packages/_api/stage1'' \<mapsto> 448]"
  "log orphan_world = []"
  by (simp_all add: orphan_world_def example_world_def)


lemma committed_create_eval:
  "committed_create =
     (Returned True, Some [], None,
      AtomicFile_destroy path_h2
        (Log LogInformation ''ConfigObjectUtility''
          ''Created and activated object 'h2' of type 'Host'.''
          (AtomicFile_Commit path_h2
            ((AtomicFile_write path_h2 ''object Host h2 {}''
              (AtomicFile_open path_h2 420 (MkDirP (DirName path_h2) 448 example_world)))
             \<lparr>rt := empty_runtime\<lparr>objects := (objects empty_runtime)((''Host'', ''h2'') \<mapsto> 2),
                                   items := insert (''Host'', ''h2'') (items empty_runtime)\<rparr>\<rparr>))))"
proof -
  let ?env = creating_env
  let ?r = "empty_runtime\<lparr>objects := (objects empty_runtime)((''Host'', ''h2'') \<mapsto> 2),
                                   items := insert (''Host'', ''h2'') (items empty_runtime)\<rparr>"
  have fresh: "\<not> (IsConfigType HostType \<and> GetObject (rt example_world) HostType ''h2'' \<noteq> None)"
    by (simp add: GetObject_def example_world_simps empty_runtime_simps)
  have P: "ComputeNewObjectConfigPath ?env HostType ''h2'' (CreateStorage ?env example_world)
             = Inr (path_h2, example_world)"
    by (simp add: CreateStorage_example path_h2 creating_env_simps example_world_simps)
  have F: "AtomicFileFault ?env step path_h2 = None" for step
    by (simp add: creating_env_simps)
  have K: "CompileText ?env path_h2 ''object Host h2 {}'' [] ''_api''
             = Inr (Expression path_h2 ''object Host h2 {}'' ''_api'')"
    by (simp add: creating_env_simps)
  have E: "Evaluate ?env (Expression path_h2 ''object Host h2 {}'' ''_api'')
             (rt (AtomicFile_write path_h2 ''object Host h2 {}''
              (AtomicFile_open path_h2 420 (MkDirP (DirName path_h2) 448 example_world))))
           = (None, empty_runtime)"
    by (simp add: creating_env_simps pending_world_frame example_world_simps)
  note C = creating_env_simps(6) [of empty_runtime]
  note A = creating_env_simps(7)
  have U: "(if TypeName HostType \<noteq> ''Comment'' \<and> TypeName HostType \<noteq> ''Downtime''
            then UpdateObjectAuthority ?env ?r else (None, ?r)) = (None, ?r)"
    by (simp add: creating_env_simps)
  have T: "IsConfigType HostType" by (simp add: HostType_simps)
  have G: "GetObject ?r HostType ''h2'' = Some 2"
    by (simp add: GetObject_def HostType_simps)
  show ?thesis
    unfolding committed_create_def CreateObject_run [OF fresh P F F F K]
      CreateObject_try_committed [OF E C A U T G F]
    by (simp add: HostType_simps)
qed

lemma DirName_path_h2:
  "DirName path_h2 = ''/var/lib/icinga2/api/packages/_api/stage1/conf.d/hosts''"
  by (simp add: DirName_def path_h2_def)

lemma MkDirP_example:
  "dirs (MkDirP ''/var/lib/icinga2/api/packages/_api/stage1/conf.d/hosts'' 448 example_world)
     ''/var/lib/icinga2/api/packages/_api/stage1/conf.d/hosts'' = Some 448"
  "dirs (MkDirP ''/var/lib/icinga2/api/packages/_api/stage1/conf.d/hosts'' 448 example_world)
     ''/var/lib/icinga2/api/packages/_api/stage1/conf.d'' = Some 448"
  by (simp_all add: MkDirP_def MkDir_def example_world_simps)



lemma AtomicFile_Commit_frame:
  "dirs (AtomicFile_Commit p w) = dirs w" "rt (AtomicFile_Commit p w) = rt w"
  "log (AtomicFile_Commit p w) = log w"
  "files (AtomicFile_Commit p w) = (case temps w p of None \<Rightarrow> files w | Some f \<Rightarrow> (files w)(p \<mapsto> f))"
  by (simp_all add: AtomicFile_Commit_def split: option.splits)

lemma Log_frame:
  "files (Log s f m w) = files w" "dirs (Log s f m w) = dirs w" "temps (Log s f m w) = temps w"
  "rt (Log s f m w) = rt w"
  by (simp_all add: Log_def)


lemma committed_world:
  "rt (world_of committed_create) =
     empty_runtime\<lparr>objects := (objects empty_runtime)((''Host'', ''h2'') \<mapsto> 2),
                   items := insert (''Host'', ''h2'') (items empty_runtime)\<rparr>"
  "dirs (world_of committed_create) = dirs (MkDirP (DirName path_h2) 448 example_world)"
  "files (world_of committed_create) = (files example_world)(path_h2 \<mapsto> (''object Host h2 {}'', 420))"
  unfolding committed_create_eval world_of_def
  by (simp_all add: AtomicFile_frame Log_frame MkDirP_frame AtomicFile_Commit_frame AtomicFile_write_open)


subsection \<open>Creating an object: what happens to the registry\<close>

lemma report_exceptions_rt:
  "rt (snd (snd (report_exceptions env notice exs errors diag w))) = rt w"
  by (simp add: report_exceptions_def Log_def split: option.splits)



subsection \<open>A create that does not commit\<close>












subsection \<open>Permissions\<close>

text \<open>
  C8, as amended. Every directory that a call of \<open>CreateObject\<close> creates has the mode
  \<open>0700 = 448\<close> (all bits for the owner, none for group and others), and every file it
  creates or replaces holds the configuration text with the mode \<open>0644 = 420\<close>: read
  and write for the owner, read for the group and for the others. A call that returns
  true with the object registered has put such a file at the computed path. The modes
  are those passed to \<open>MkDirP\<close> and \<open>AtomicFile\<close>, before any umask.
\<close>

theorem CreateObject_permissions:
  assumes "CreateObject env type fullName config errors diagnosticInformation cookie w
             = (out, errors', diag', w')"
  shows "(\<forall>d. dirs w' d \<noteq> dirs w d \<longrightarrow> dirs w d = None \<and> dirs w' d = Some 448)
         \<and> (\<forall>f. files w' f \<noteq> files w f \<longrightarrow> files w' f = Some (config, 420))
         \<and> (out = Returned True \<and> GetObject (rt w') type fullName \<noteq> None \<longrightarrow>
               (\<exists>p w2. ComputeNewObjectConfigPath env type fullName (CreateStorage env w) = Inr (p, w2)
                  \<and> files w' p = Some (config, 420)))
         \<and> (448::nat) = 7 * 64 \<and> (420::nat) = 6 * 64 + 4 * 8 + 4"
proof -
  from CreateObject_cases [OF assms]
  have d: "\<forall>x. dirs w' x = dirs w x \<or> (dirs w x = None \<and> dirs w' x = Some 448)"
    and alt: "(out = Returned True \<and> GetObject (rt w') type fullName \<noteq> None
             \<and> (\<exists>p w2. ComputeNewObjectConfigPath env type fullName (CreateStorage env w) = Inr (p, w2)
                    \<and> files w' = (files w)(p \<mapsto> (config, 420))
                    \<and> temps w' = (temps w)(p := None)))
          \<or> (files w' = files w
              \<and> (out \<noteq> NullDereference \<longrightarrow> dom (temps w') \<subseteq> dom (temps w))
              \<and> (out = Returned True \<longrightarrow>
                    GetObject (rt w') type fullName = None \<and> errors' = errors
                    \<and> diag' = diagnosticInformation))"
    by simp_all
  from d have "\<forall>d. dirs w' d \<noteq> dirs w d \<longrightarrow> dirs w d = None \<and> dirs w' d = Some 448" by metis
  moreover have "\<forall>f. files w' f \<noteq> files w f \<longrightarrow> files w' f = Some (config, 420)"
    and "out = Returned True \<and> GetObject (rt w') type fullName \<noteq> None \<longrightarrow>
               (\<exists>p w2. ComputeNewObjectConfigPath env type fullName (CreateStorage env w) = Inr (p, w2)
                  \<and> files w' p = Some (config, 420))"
    using alt
  proof -
    from alt show "\<forall>f. files w' f \<noteq> files w f \<longrightarrow> files w' f = Some (config, 420)"
    proof
      assume "out = Returned True \<and> GetObject (rt w') type fullName \<noteq> None
             \<and> (\<exists>p w2. ComputeNewObjectConfigPath env type fullName (CreateStorage env w) = Inr (p, w2)
                    \<and> files w' = (files w)(p \<mapsto> (config, 420))
                    \<and> temps w' = (temps w)(p := None))"
      then obtain p where "files w' = (files w)(p \<mapsto> (config, 420))" by blast
      then show ?thesis by simp
    next
      assume "files w' = files w
              \<and> (out \<noteq> NullDereference \<longrightarrow> dom (temps w') \<subseteq> dom (temps w))
              \<and> (out = Returned True \<longrightarrow>
                    GetObject (rt w') type fullName = None \<and> errors' = errors
                    \<and> diag' = diagnosticInformation)"
      then show ?thesis by simp
    qed
    from alt show "out = Returned True \<and> GetObject (rt w') type fullName \<noteq> None \<longrightarrow>
               (\<exists>p w2. ComputeNewObjectConfigPath env type fullName (CreateStorage env w) = Inr (p, w2)
                  \<and> files w' p = Some (config, 420))"
    proof
      assume "out = Returned True \<and> GetObject (rt w') type fullName \<noteq> None
             \<and> (\<exists>p w2. ComputeNewObjectConfigPath env type fullName (CreateStorage env w) = Inr (p, w2)
                    \<and> files w' = (files w)(p \<mapsto> (config, 420))
                    \<and> temps w' = (temps w)(p := None))"
      then obtain p w2 where
        "ComputeNewObjectConfigPath env type fullName (CreateStorage env w) = Inr (p, w2)"
        "files w' = (files w)(p \<mapsto> (config, 420))" by blast
      then have "ComputeNewObjectConfigPath env type fullName (CreateStorage env w) = Inr (p, w2)
                 \<and> files w' p = Some (config, 420)" by simp
      then show ?thesis by blast
    next
      assume "files w' = files w
              \<and> (out \<noteq> NullDereference \<longrightarrow> dom (temps w') \<subseteq> dom (temps w))
              \<and> (out = Returned True \<longrightarrow>
                    GetObject (rt w') type fullName = None \<and> errors' = errors
                    \<and> diag' = diagnosticInformation)"
      then show ?thesis by auto
    qed
  qed
  ultimately show ?thesis by simp
qed

text \<open>The run \<open>committed_create\<close>, which persists the host \<open>h2\<close>.\<close>

theorem CreateObject_permissions_witness:
  "committed_create = (Returned True, Some [], None, world_of committed_create)
   \<and> GetObject (rt (world_of committed_create)) HostType ''h2'' = Some 2
   \<and> dirs example_world ''/var/lib/icinga2/api/packages/_api/stage1/conf.d/hosts'' = None
   \<and> dirs (world_of committed_create) ''/var/lib/icinga2/api/packages/_api/stage1/conf.d/hosts''
       = Some 448
   \<and> files example_world path_h2 = None
   \<and> files (world_of committed_create) path_h2 = Some (''object Host h2 {}'', 420)"
proof -
  let ?d = "''/var/lib/icinga2/api/packages/_api/stage1/conf.d/hosts''"
  have cc: "committed_create = (Returned True, Some [], None, world_of committed_create)"
    unfolding world_of_def by (simp add: committed_create_eval)
  have run: "CreateObject creating_env HostType ''h2'' ''object Host h2 {}'' (Some []) None
               Empty example_world = (Returned True, Some [], None, world_of committed_create)"
    unfolding committed_create_def [symmetric] by (rule cc)
  have g: "GetObject (rt (world_of committed_create)) HostType ''h2'' = Some 2"
    by (simp add: committed_world GetObject_def HostType_simps)
  have d0: "dirs example_world ?d = None" by (simp add: example_world_simps)
  have d1: "dirs (world_of committed_create) ?d \<noteq> dirs example_world ?d"
    by (simp add: committed_world DirName_path_h2 MkDirP_example d0)
  have f0: "files example_world path_h2 = None" by (simp add: example_world_simps)
  have f1: "files (world_of committed_create) path_h2 \<noteq> files example_world path_h2"
    by (simp add: committed_world f0)
  from CreateObject_permissions [OF run]
  have "\<forall>d. dirs (world_of committed_create) d \<noteq> dirs example_world d \<longrightarrow>
              dirs example_world d = None \<and> dirs (world_of committed_create) d = Some 448"
    and "\<forall>f. files (world_of committed_create) f \<noteq> files example_world f \<longrightarrow>
              files (world_of committed_create) f = Some (''object Host h2 {}'', 420)"
    by blast+
  with d1 f1 have "dirs (world_of committed_create) ?d = Some 448"
    and "files (world_of committed_create) path_h2 = Some (''object Host h2 {}'', 420)"
    by blast+
  with cc g d0 f0 show ?thesis by blast
qed

text \<open>
  C8 as stated wants the file readable and writable by its owner only. The file that
  \<open>committed_create\<close> persists has the bits \<open>044 = 36\<close> for group and others set.
\<close>

theorem CreateObject_file_mode_counterexample:
  "fst committed_create = Returned True
   \<and> GetObject (rt (world_of committed_create)) HostType ''h2'' = Some 2
   \<and> map_option (\<lambda>f. snd f mod 64) (files (world_of committed_create) path_h2) = Some 36"
proof -
  have "GetObject (rt (world_of committed_create)) HostType ''h2'' = Some 2"
    by (simp add: committed_world GetObject_def HostType_simps)
  moreover have "files (world_of committed_create) path_h2 = Some (''object Host h2 {}'', 420)"
    by (simp add: committed_world)
  moreover have "fst committed_create = Returned True" by (simp add: committed_create_eval)
  ultimately show ?thesis by simp
qed

subsection \<open>Deleting with cascade\<close>

lemma delete_step_refl: "delete_step w w"
  by (simp add: delete_step_def)

lemma delete_step_trans:
  assumes "delete_step w1 w2" and "delete_step w2 w3"
  shows "delete_step w1 w3"
  unfolding delete_step_def
proof (intro conjI allI)
  show "parents (rt w3) = parents (rt w1)" using assms by (simp add: delete_step_def)
next
  fix a
  show "ReflectionType (heap (rt w3) a) = ReflectionType (heap (rt w1) a)"
    "ObjectName (heap (rt w3) a) = ObjectName (heap (rt w1) a)"
    "Package (heap (rt w3) a) = Package (heap (rt w1) a)"
    "DebugInfoPath (heap (rt w3) a) = DebugInfoPath (heap (rt w1) a)"
    using assms by (simp_all add: delete_step_def)
  show "Active (heap (rt w3) a) \<longrightarrow> Active (heap (rt w1) a)"
    using assms by (simp add: delete_step_def)
next
  fix k
  show "objects (rt w3) k = objects (rt w1) k \<or> objects (rt w3) k = None"
    using assms unfolding delete_step_def by metis
next
  fix p
  from assms(1) have a: "files w2 p = files w1 p
            \<or> (files w2 p = None
                \<and> (\<exists>a. Package (heap (rt w1) a) = ''_api'' \<and> DebugInfoPath (heap (rt w1) a) = p))"
    by (simp add: delete_step_def)
  from assms(2) have b: "files w3 p = files w2 p
            \<or> (files w3 p = None
                \<and> (\<exists>a. Package (heap (rt w2) a) = ''_api'' \<and> DebugInfoPath (heap (rt w2) a) = p))"
    by (simp add: delete_step_def)
  from assms(1) have c: "\<And>a. Package (heap (rt w2) a) = Package (heap (rt w1) a)
      \<and> DebugInfoPath (heap (rt w2) a) = DebugInfoPath (heap (rt w1) a)"
    by (simp add: delete_step_def)
  from a b c
  show "files w3 p = files w1 p
            \<or> (files w3 p = None
                \<and> (\<exists>a. Package (heap (rt w1) a) = ''_api'' \<and> DebugInfoPath (heap (rt w1) a) = p))"
    by metis
qed

lemma DeleteObjectHelper_self_step:
  assumes "DeleteObjectHelper_self env object type name errors diag cookie w = (b, errors', diag', w')"
  shows "delete_step w w'"
  using assms
  by (auto simp: DeleteObjectHelper_self_def Let_def delete_step_def SetExtension_def Deactivate_def
      update_object_def Unregister_item_def Unregister_object_def Remove_def Log_def
      GetExistingObjectConfigPath_def split: option.splits if_splits)


lemma DeleteObjectHelper_self_success:
  assumes "DeactivateFault env object = None" and "UnregisterFault env object = None"
      and "DeleteObjectHelper_self env object type name errors diag cookie w = (b, errors', diag', w')"
  shows "b" and "errors' = errors" and "diag' = diag"
    and "\<not> Active (heap (rt w') object)"
    and "objects (rt w') (type, name) = None"
    and "Package (heap (rt w) object) = ''_api'' \<Longrightarrow> files w' (DebugInfoPath (heap (rt w) object)) = None"
    and "Package (heap (rt w) object) \<noteq> ''_api'' \<Longrightarrow> files w' = files w"
  using assms
  by (auto simp: DeleteObjectHelper_self_def Let_def SetExtension_def Deactivate_def
      update_object_def Unregister_item_def Unregister_object_def Remove_def Log_def
      GetExistingObjectConfigPath_def split: if_splits)



text \<open>The loop over the dependents inherits what holds of every recursive call.\<close>

lemma DeleteParents_step:
  assumes "\<And>a e d w b e' d' w'.
             DeleteObjectHelper n env a c e d k w = Some (b, e', d', w') \<Longrightarrow> delete_step w w'"
      and "DeleteParents n env ps c e d k w = Some (e', d', w')"
  shows "delete_step w w'"
  using assms(2)
proof (induction ps arbitrary: e d w)
  case Nil
  then show ?case by (simp add: delete_step_refl)
next
  case (Cons p ps)
  show ?case
  proof (cases p)
    case (OtherObjectPtr x)
    with Cons show ?thesis by simp
  next
    case (ConfigObjectPtr a)
    with Cons.prems obtain b e1 d1 w1 where
      h: "DeleteObjectHelper n env a c e d k w = Some (b, e1, d1, w1)"
      and r: "DeleteParents n env ps c e1 d1 k w1 = Some (e', d', w')"
      by (auto split: option.splits)
    from assms(1) [OF h] Cons.IH [OF r] show ?thesis by (rule delete_step_trans)
  qed
qed

lemma DeleteObjectHelper_step:
  "DeleteObjectHelper n env a c e d k w = Some (b, e', d', w') \<Longrightarrow> delete_step w w'"
proof (induction n arbitrary: a e d w b e' d' w')
  case 0
  then show ?case by simp
next
  case (Suc n)
  show ?case
  proof (cases "GetParents (rt w) a \<noteq> [] \<and> \<not> c")
    case True
    with Suc.prems show ?thesis by (auto simp: Let_def delete_step_refl)
  next
    case False
    with Suc.prems obtain e1 d1 w1 where
      l: "DeleteParents n env (GetParents (rt w) a) c e d k w = Some (e1, d1, w1)"
      and s: "DeleteObjectHelper_self env a (ReflectionType (heap (rt w) a))
                (ObjectName (heap (rt w) a)) e1 d1 k w1 = (b, e', d', w')"
      by (auto simp: Let_def split: option.splits)
    from DeleteParents_step [OF Suc.IH l] DeleteObjectHelper_self_step [OF s]
    show ?thesis by (rule delete_step_trans)
  qed
qed


lemma delete_step_keeps_deleted:
  assumes "delete_step w w'"
  shows "\<not> Active (heap (rt w) a) \<Longrightarrow> \<not> Active (heap (rt w') a)"
    and "objects (rt w) key = None \<Longrightarrow> objects (rt w') key = None"
  using assms unfolding delete_step_def by metis+

lemma delete_step_fields:
  assumes "delete_step w w'"
  shows "parents (rt w') = parents (rt w)"
    and "ReflectionType (heap (rt w') a) = ReflectionType (heap (rt w) a)"
    and "ObjectName (heap (rt w') a) = ObjectName (heap (rt w) a)"
    and "Package (heap (rt w') a) = Package (heap (rt w) a)"
    and "DebugInfoPath (heap (rt w') a) = DebugInfoPath (heap (rt w) a)"
  using assms by (simp_all add: delete_step_def)




text \<open>
  Termination: when every dependent has a smaller rank than the object it depends on
  (the graph has no cycle), a depth above the rank of the object suffices.
\<close>

lemma DeleteParents_returns:
  assumes "\<And>a e d w. \<forall>x p. ConfigObjectPtr p \<in> set (parents (rt w) x) \<longrightarrow> rank p < rank x
             \<Longrightarrow> rank a < n \<Longrightarrow> \<exists>r. DeleteObjectHelper n env a c e d k w = Some r"
      and "\<forall>x p. ConfigObjectPtr p \<in> set (parents (rt w) x) \<longrightarrow> rank p < (rank x :: nat)"
      and "\<forall>p. ConfigObjectPtr p \<in> set ps \<longrightarrow> rank p < n"
  shows "\<exists>r. DeleteParents n env ps c e d k w = Some r"
  using assms(2,3)
proof (induction ps arbitrary: e d w)
  case Nil
  then show ?case by simp
next
  case (Cons p ps)
  show ?case
  proof (cases p)
    case (OtherObjectPtr x)
    with Cons show ?thesis by simp
  next
    case (ConfigObjectPtr a)
    with Cons.prems have "rank a < n" by simp
    from assms(1) [OF Cons.prems(1) this] obtain b e1 d1 w1 where
      h: "DeleteObjectHelper n env a c e d k w = Some (b, e1, d1, w1)"
      by (metis prod_cases4)
    from DeleteObjectHelper_step [OF h] have "parents (rt w1) = parents (rt w)"
      by (rule delete_step_fields)
    with Cons.prems(1)
    have "\<forall>x p. ConfigObjectPtr p \<in> set (parents (rt w1) x) \<longrightarrow> rank p < rank x" by simp
    moreover from Cons.prems(2) have "\<forall>p. ConfigObjectPtr p \<in> set ps \<longrightarrow> rank p < n" by simp
    ultimately have "\<exists>r. DeleteParents n env ps c e1 d1 k w1 = Some r" by (rule Cons.IH)
    with h ConfigObjectPtr show ?thesis by simp
  qed
qed

lemma DeleteObjectHelper_returns:
  assumes "\<forall>x p. ConfigObjectPtr p \<in> set (parents (rt w) x) \<longrightarrow> rank p < (rank x :: nat)"
      and "rank a < n"
  shows "\<exists>r. DeleteObjectHelper n env a c e d k w = Some r"
  using assms
proof (induction n arbitrary: a e d w)
  case 0
  then show ?case by simp
next
  case (Suc n)
  show ?case
  proof (cases "GetParents (rt w) a \<noteq> [] \<and> \<not> c")
    case True
    then show ?thesis by (auto simp: Let_def)
  next
    case False
    have "\<forall>p. ConfigObjectPtr p \<in> set (GetParents (rt w) a) \<longrightarrow> rank p < n"
    proof (intro allI impI)
      fix p assume "ConfigObjectPtr p \<in> set (GetParents (rt w) a)"
      with Suc.prems(1) have "rank p < rank a" by (simp add: GetParents_def)
      with Suc.prems(2) show "rank p < n" by simp
    qed
    from DeleteParents_returns [OF Suc.IH Suc.prems(1) this]
    obtain e1 d1 w1 where "DeleteParents n env (GetParents (rt w) a) c e d k w = Some (e1, d1, w1)"
      by (metis prod_cases3)
    then have "DeleteObjectHelper (Suc n) env a c e d k w =
                 Some (DeleteObjectHelper_self env a (ReflectionType (heap (rt w) a))
                         (ObjectName (heap (rt w) a)) e1 d1 k w1)"
      by (simp add: Let_def if_not_P [OF False])
    then show ?thesis by blast
  qed
qed


lemma DeleteParents_delete_step:
  assumes "DeleteParents n env ps c e d k w = Some (e', d', w')"
  shows "delete_step w w'"
  by (rule DeleteParents_step [OF _ assms]) (rule DeleteObjectHelper_step)





lemma depends_step: "delete_step w w' \<Longrightarrow> depends w' = depends w"
  by (simp add: depends_def GetParents_def delete_step_def)

lemma delete_step_files: "delete_step w w' \<Longrightarrow> files w f = None \<Longrightarrow> files w' f = None"
  unfolding delete_step_def by metis

lemma cascade_ok_refl: "cascade_ok env w w {}"
  by (simp add: cascade_ok_def)

lemma cascade_ok_seq:
  assumes s1: "delete_step w w1" and c1: "cascade_ok env w w1 S1"
      and s2: "delete_step w1 w2" and c2: "cascade_ok env w1 w2 S2"
  shows "cascade_ok env w w2 (S1 \<union> S2)"
  unfolding cascade_ok_def
proof (intro conjI ballI impI allI)
  fix p assume p: "p \<in> S1 \<union> S2" and nf: "DeactivateFault env p = None \<and> UnregisterFault env p = None"
  note f1 = delete_step_fields [OF s1]
  show "deleted w w2 p"
  proof (cases "p \<in> S1")
    case True
    with c1 nf have d: "deleted w w1 p" by (simp add: cascade_ok_def)
    with delete_step_keeps_deleted [OF s2] delete_step_files [OF s2]
    show ?thesis unfolding deleted_def by blast
  next
    case False
    with p have "p \<in> S2" by simp
    with c2 nf have "deleted w1 w2 p" by (simp add: cascade_ok_def)
    then show ?thesis by (simp add: deleted_def f1)
  qed
next
  fix f
  note f1 = delete_step_fields [OF s1]
  from c1 have a: "files w1 f = files w f
            \<or> (files w1 f = None
                \<and> (\<exists>x\<in>S1. Package (heap (rt w) x) = ''_api'' \<and> DebugInfoPath (heap (rt w) x) = f
                      \<and> DeactivateFault env x = None \<and> UnregisterFault env x = None))"
    by (simp add: cascade_ok_def)
  from c2 have b: "files w2 f = files w1 f
            \<or> (files w2 f = None
                \<and> (\<exists>x\<in>S2. Package (heap (rt w) x) = ''_api'' \<and> DebugInfoPath (heap (rt w) x) = f
                      \<and> DeactivateFault env x = None \<and> UnregisterFault env x = None))"
    by (simp add: cascade_ok_def f1)
  from a b
  show "files w2 f = files w f
            \<or> (files w2 f = None
                \<and> (\<exists>x\<in>S1 \<union> S2. Package (heap (rt w) x) = ''_api'' \<and> DebugInfoPath (heap (rt w) x) = f
                      \<and> DeactivateFault env x = None \<and> UnregisterFault env x = None))"
    by (metis UnCI)
qed

lemma DeleteObjectHelper_self_files:
  assumes "DeleteObjectHelper_self env a type name errors diag cookie w = (b, errors', diag', w')"
  shows "files w' f = files w f
         \<or> (files w' f = None \<and> Package (heap (rt w) a) = ''_api'' \<and> DebugInfoPath (heap (rt w) a) = f
             \<and> DeactivateFault env a = None \<and> UnregisterFault env a = None)"
  using assms
  by (auto simp: DeleteObjectHelper_self_def Let_def SetExtension_def Deactivate_def
      update_object_def Unregister_item_def Unregister_object_def Remove_def Log_def
      GetExistingObjectConfigPath_def catch_exception_def split: option.splits if_splits)

lemma cascade_ok_self:
  assumes s: "DeleteObjectHelper_self env a (ReflectionType (heap (rt w) a)) (ObjectName (heap (rt w) a))
                errors diag cookie w = (b, errors', diag', w')"
  shows "cascade_ok env w w' {a}"
  unfolding cascade_ok_def
proof (intro conjI ballI impI allI)
  fix p assume "p \<in> {a}" and nf: "DeactivateFault env p = None \<and> UnregisterFault env p = None"
  then have pa: "p = a" by simp
  from nf pa have d: "DeactivateFault env a = None" and u: "UnregisterFault env a = None" by simp_all
  note ok = DeleteObjectHelper_self_success [OF d u s]
  from ok(4) ok(5) ok(6) show "deleted w w' p" by (simp add: deleted_def pa)
next
  fix f
  from DeleteObjectHelper_self_files [OF s, of f]
  show "files w' f = files w f
            \<or> (files w' f = None
                \<and> (\<exists>x\<in>{a}. Package (heap (rt w) x) = ''_api'' \<and> DebugInfoPath (heap (rt w) x) = f
                      \<and> DeactivateFault env x = None \<and> UnregisterFault env x = None))"
    by simp
qed

text \<open>The objects that a cascade from the dependents \<open>ps\<close> reaches.\<close>

lemma reach_Cons:
  "R\<^sup>* `` {q. ConfigObjectPtr q \<in> set (ConfigObjectPtr a # ps)}
     = R\<^sup>* `` {a} \<union> R\<^sup>* `` {q. ConfigObjectPtr q \<in> set ps}"
  "R\<^sup>* `` {q. ConfigObjectPtr q \<in> set (OtherObjectPtr x # ps)}
     = R\<^sup>* `` {q. ConfigObjectPtr q \<in> set ps}"
  by auto

lemma reach_root:
  "(depends w)\<^sup>* `` {a}
     = (depends w)\<^sup>* `` {q. ConfigObjectPtr q \<in> set (GetParents (rt w) a)} \<union> {a}"
proof -
  have "{q. ConfigObjectPtr q \<in> set (GetParents (rt w) a)} = depends w `` {a}"
    by (auto simp: depends_def)
  moreover have "(depends w)\<^sup>* `` {a} = (depends w)\<^sup>* `` (depends w `` {a}) \<union> {a}"
    by (auto elim: converse_rtranclE intro: converse_rtrancl_into_rtrancl)
  ultimately show ?thesis by simp
qed

lemma DeleteParents_cascade:
  assumes H: "\<And>a e d w b e' d' w'.
             DeleteObjectHelper n env a True e d k w = Some (b, e', d', w')
               \<Longrightarrow> cascade_ok env w w' ((depends w)\<^sup>* `` {a})"
      and "DeleteParents n env ps True e d k w = Some (e', d', w')"
  shows "cascade_ok env w w' ((depends w)\<^sup>* `` {q. ConfigObjectPtr q \<in> set ps})"
  using assms(2)
proof (induction ps arbitrary: e d w)
  case Nil
  then show ?case by (simp add: cascade_ok_refl)
next
  case (Cons q qs)
  show ?case
  proof (cases q)
    case (OtherObjectPtr x)
    with Cons.prems have "DeleteParents n env qs True e d k w = Some (e', d', w')" by simp
    from Cons.IH [OF this] show ?thesis unfolding OtherObjectPtr reach_Cons .
  next
    case (ConfigObjectPtr a)
    with Cons.prems obtain b e1 d1 w1 where
      h: "DeleteObjectHelper n env a True e d k w = Some (b, e1, d1, w1)"
      and r: "DeleteParents n env qs True e1 d1 k w1 = Some (e', d', w')"
      by (auto split: option.splits)
    have s1: "delete_step w w1" by (rule DeleteObjectHelper_step [OF h])
    have s2: "delete_step w1 w'" by (rule DeleteParents_delete_step [OF r])
    from Cons.IH [OF r] have "cascade_ok env w1 w' ((depends w)\<^sup>* `` {q. ConfigObjectPtr q \<in> set qs})"
      by (simp add: depends_step [OF s1])
    then show ?thesis
      unfolding ConfigObjectPtr reach_Cons by (rule cascade_ok_seq [OF s1 H [OF h] s2])
  qed
qed

lemma DeleteObjectHelper_cascade:
  "DeleteObjectHelper n env a True e d k w = Some (b, e', d', w')
     \<Longrightarrow> cascade_ok env w w' ((depends w)\<^sup>* `` {a})"
proof (induction n arbitrary: a e d w b e' d' w')
  case 0
  then show ?case by simp
next
  case (Suc n)
  from Suc.prems obtain e1 d1 w1 where
    l: "DeleteParents n env (GetParents (rt w) a) True e d k w = Some (e1, d1, w1)"
    and s: "DeleteObjectHelper_self env a (ReflectionType (heap (rt w) a))
              (ObjectName (heap (rt w) a)) e1 d1 k w1 = (b, e', d', w')"
    by (auto simp: Let_def split: option.splits)
  have s1: "delete_step w w1" by (rule DeleteParents_delete_step [OF l])
  have s2: "delete_step w1 w'" by (rule DeleteObjectHelper_self_step [OF s])
  from s have "DeleteObjectHelper_self env a (ReflectionType (heap (rt w1) a))
              (ObjectName (heap (rt w1) a)) e1 d1 k w1 = (b, e', d', w')"
    by (simp add: delete_step_fields [OF s1])
  then have c2: "cascade_ok env w1 w' {a}" by (rule cascade_ok_self)
  have c1: "cascade_ok env w w1 ((depends w)\<^sup>* `` {q. ConfigObjectPtr q \<in> set (GetParents (rt w) a)})"
    by (rule DeleteParents_cascade [OF Suc.IH l])
  show ?case by (subst reach_root) (rule cascade_ok_seq [OF s1 c1 s2 c2])
qed



text \<open>
  C10. Only \<open>DeleteObject\<close> looks at the package, and only for the object it is called
  with: for an object outside the package \<open>_api\<close> it fails at once and changes nothing,
  and for one inside it is \<open>DeleteObjectHelper\<close>. A cascade over an acyclic dependency
  graph, given enough depth, returns, and then
  \<^item> the target and every object that depends on it, directly or through other objects,
    ends inactive and unregistered whatever its package, provided its own deactivation
    and unregistration do not throw, and its file is removed when its package is \<open>_api\<close>;
  \<^item> a file that is there before and not after is the file of such an object whose
    package is \<open>_api\<close>: the files of the objects of other packages stay.
\<close>

theorem ownership_checked_for_root_only:
  assumes "\<forall>x p. ConfigObjectPtr p \<in> set (parents (rt w) x) \<longrightarrow> rank p < (rank x :: nat)"
      and "rank object < fuel"
  shows "\<exists>b errors' diag' w'.
           DeleteObjectHelper fuel env object True errors diagnosticInformation cookie w
             = Some (b, errors', diag', w')
           \<and> (Package (heap (rt w) object) = ''_api'' \<longrightarrow>
                 DeleteObject fuel env object True errors diagnosticInformation cookie w
                   = Some (b, errors', diag', w'))
           \<and> (\<forall>p. (object, p) \<in> (depends w)\<^sup>*
                  \<and> DeactivateFault env p = None \<and> UnregisterFault env p = None
                \<longrightarrow> \<not> Active (heap (rt w') p)
                    \<and> objects (rt w') (ReflectionType (heap (rt w) p), ObjectName (heap (rt w) p)) = None
                    \<and> (Package (heap (rt w) p) = ''_api'' \<longrightarrow>
                          files w' (DebugInfoPath (heap (rt w) p)) = None))
           \<and> (\<forall>f. files w' f \<noteq> files w f
                \<longrightarrow> files w' f = None
                    \<and> (\<exists>a. (object, a) \<in> (depends w)\<^sup>*
                          \<and> Package (heap (rt w) a) = ''_api'' \<and> DebugInfoPath (heap (rt w) a) = f
                          \<and> DeactivateFault env a = None \<and> UnregisterFault env a = None))
           \<and> (\<forall>a c. Package (heap (rt w) a) \<noteq> ''_api'' \<longrightarrow>
                 DeleteObject fuel env a c errors diagnosticInformation cookie w
                   = Some (False,
                           map_option (\<lambda>es. es @ [''Object cannot be deleted because it was not created using the API.''])
                             errors,
                           diagnosticInformation, w))"
proof -
  from DeleteObjectHelper_returns [OF assms(1) assms(2)]
  obtain b errors' diag' w' where
    run: "DeleteObjectHelper fuel env object True errors diagnosticInformation cookie w
            = Some (b, errors', diag', w')"
    by (metis prod_cases4)
  from DeleteObjectHelper_cascade [OF run]
  have ok: "cascade_ok env w w' ((depends w)\<^sup>* `` {object})" .
  from run have one: "Package (heap (rt w) object) = ''_api'' \<longrightarrow>
                 DeleteObject fuel env object True errors diagnosticInformation cookie w
                   = Some (b, errors', diag', w')"
    by (simp add: DeleteObject_def)
  from ok have two: "\<forall>p. (object, p) \<in> (depends w)\<^sup>*
                  \<and> DeactivateFault env p = None \<and> UnregisterFault env p = None
                \<longrightarrow> \<not> Active (heap (rt w') p)
                    \<and> objects (rt w') (ReflectionType (heap (rt w) p), ObjectName (heap (rt w) p)) = None
                    \<and> (Package (heap (rt w) p) = ''_api'' \<longrightarrow>
                          files w' (DebugInfoPath (heap (rt w) p)) = None)"
    by (simp add: cascade_ok_def deleted_def)
  have three: "\<forall>f. files w' f \<noteq> files w f
                \<longrightarrow> files w' f = None
                    \<and> (\<exists>a. (object, a) \<in> (depends w)\<^sup>*
                          \<and> Package (heap (rt w) a) = ''_api'' \<and> DebugInfoPath (heap (rt w) a) = f
                          \<and> DeactivateFault env a = None \<and> UnregisterFault env a = None)"
  proof (intro allI impI)
    fix f assume ne: "files w' f \<noteq> files w f"
    from ok have "files w' f = files w f
            \<or> (files w' f = None
                \<and> (\<exists>x\<in>(depends w)\<^sup>* `` {object}.
                      Package (heap (rt w) x) = ''_api'' \<and> DebugInfoPath (heap (rt w) x) = f
                      \<and> DeactivateFault env x = None \<and> UnregisterFault env x = None))"
      by (simp add: cascade_ok_def)
    with ne show "files w' f = None
                    \<and> (\<exists>a. (object, a) \<in> (depends w)\<^sup>*
                          \<and> Package (heap (rt w) a) = ''_api'' \<and> DebugInfoPath (heap (rt w) a) = f
                          \<and> DeactivateFault env a = None \<and> UnregisterFault env a = None)"
      by auto
  qed
  have four: "\<forall>a c. Package (heap (rt w) a) \<noteq> ''_api'' \<longrightarrow>
               DeleteObject fuel env a c errors diagnosticInformation cookie w
                 = Some (False,
                         map_option (\<lambda>es. es @ [''Object cannot be deleted because it was not created using the API.''])
                           errors,
                         diagnosticInformation, w)"
    by (simp add: DeleteObject_def)
  from run one two three four show ?thesis by blast
qed

lemma chain_world_simps:
  "files chain_world =
     [''/var/lib/icinga2/api/packages/_api/stage1/conf.d/hosts/h1.conf'' \<mapsto> (''object Host h1'', 420),
      ''/etc/icinga2/conf.d/services.conf'' \<mapsto> (''object Service ping'', 420),
      ''/var/lib/icinga2/api/packages/_api/stage1/conf.d/downtimes/dt1.conf''
        \<mapsto> (''object Downtime dt1'', 420)]"
  "rt chain_world = chain_runtime"
  by (simp_all add: chain_world_def)

lemma chain_objects:
  "heap (rt chain_world) 0 = example_object ''Host'' ''h1'' ''_api''
                         ''/var/lib/icinga2/api/packages/_api/stage1/conf.d/hosts/h1.conf''"
  "heap (rt chain_world) 1 = example_object ''Service'' ''h1!ping'' ''_etc'' ''/etc/icinga2/conf.d/services.conf''"
  "heap (rt chain_world) 2 = example_object ''Downtime'' ''h1!ping!dt1'' ''_api''
                         ''/var/lib/icinga2/api/packages/_api/stage1/conf.d/downtimes/dt1.conf''"
  "heap (rt chain_world) (Suc 0) = example_object ''Service'' ''h1!ping'' ''_etc'' ''/etc/icinga2/conf.d/services.conf''"
  by (simp_all add: chain_world_simps chain_runtime_def)

lemma chain_api_paths:
  "Package (heap (rt chain_world) a) = ''_api''
     \<Longrightarrow> DebugInfoPath (heap (rt chain_world) a) \<noteq> ''/etc/icinga2/conf.d/services.conf''"
  by (simp add: chain_world_simps chain_runtime_def example_object_simps split: if_splits)

lemma chain_acyclic:
  "\<forall>x p. ConfigObjectPtr p \<in> set (parents (rt chain_world) x) \<longrightarrow> chain_rank p < chain_rank x"
  by (simp add: chain_world_simps chain_runtime_def chain_rank_def)

lemma chain_depends:
  "(0, 0) \<in> (depends chain_world)\<^sup>*" "(0, 1) \<in> (depends chain_world)\<^sup>*"
  "(0, 2) \<in> (depends chain_world)\<^sup>*"
proof -
  have a: "(0, 1) \<in> depends chain_world" and b: "(1, 2) \<in> depends chain_world"
    by (simp_all add: depends_def GetParents_def chain_world_simps chain_runtime_def)
  show "(0, 0) \<in> (depends chain_world)\<^sup>*" by simp
  from a show "(0, 1) \<in> (depends chain_world)\<^sup>*" by blast
  from a b show "(0, 2) \<in> (depends chain_world)\<^sup>*" by (meson rtrancl.simps)
qed

text \<open>
  Deleting the host \<open>h1\<close> of \<open>chain_world\<close> with cascade: the host, its service and the
  downtime of the service end inactive and unregistered; the files of the host and of the
  downtime, both of the package \<open>_api\<close>, are removed, and the file of the service, of the
  package \<open>_etc\<close>, stays. Deleting that service itself is refused.
\<close>

theorem ownership_checked_for_root_only_witness:
  "chain_rank 0 < 3
   \<and> Package (heap (rt chain_world) 0) = ''_api''
   \<and> Package (heap (rt chain_world) 1) = ''_etc''
   \<and> Package (heap (rt chain_world) 2) = ''_api''
   \<and> (0, 1) \<in> (depends chain_world)\<^sup>* \<and> (0, 2) \<in> (depends chain_world)\<^sup>*
   \<and> (\<exists>b errors' diag' w'.
         DeleteObject 3 example_env 0 True (Some []) None Empty chain_world
           = Some (b, errors', diag', w')
         \<and> \<not> Active (heap (rt w') 0) \<and> objects (rt w') (''Host'', ''h1'') = None
         \<and> files w' ''/var/lib/icinga2/api/packages/_api/stage1/conf.d/hosts/h1.conf'' = None
         \<and> \<not> Active (heap (rt w') 1) \<and> objects (rt w') (''Service'', ''h1!ping'') = None
         \<and> files w' ''/etc/icinga2/conf.d/services.conf'' = Some (''object Service ping'', 420)
         \<and> \<not> Active (heap (rt w') 2) \<and> objects (rt w') (''Downtime'', ''h1!ping!dt1'') = None
         \<and> files w' ''/var/lib/icinga2/api/packages/_api/stage1/conf.d/downtimes/dt1.conf'' = None)
   \<and> DeleteObject 3 example_env 1 True (Some []) None Empty chain_world
       = Some (False, Some [''Object cannot be deleted because it was not created using the API.''],
               None, chain_world)"
proof -
  have r: "chain_rank 0 < 3" by (simp add: chain_rank_def)
  have pk: "Package (heap (rt chain_world) 0) = ''_api''" "Package (heap (rt chain_world) 1) = ''_etc''"
    "Package (heap (rt chain_world) 2) = ''_api''"
    by (simp_all add: chain_objects example_object_simps)
  have nf: "DeactivateFault example_env p = None \<and> UnregisterFault example_env p = None" for p
    by (simp add: example_env_simps)
  from ownership_checked_for_root_only [OF chain_acyclic r, where env = example_env
      and errors = "Some []" and diagnosticInformation = None and cookie = Empty]
  obtain b errors' diag' w' where
    run: "DeleteObjectHelper 3 example_env 0 True (Some []) None Empty chain_world
            = Some (b, errors', diag', w')"
    and root: "Package (heap (rt chain_world) 0) = ''_api'' \<longrightarrow>
                 DeleteObject 3 example_env 0 True (Some []) None Empty chain_world
                   = Some (b, errors', diag', w')"
    and del: "\<forall>p. (0, p) \<in> (depends chain_world)\<^sup>*
                  \<and> DeactivateFault example_env p = None \<and> UnregisterFault example_env p = None
                \<longrightarrow> \<not> Active (heap (rt w') p)
                    \<and> objects (rt w') (ReflectionType (heap (rt chain_world) p),
                                       ObjectName (heap (rt chain_world) p)) = None
                    \<and> (Package (heap (rt chain_world) p) = ''_api'' \<longrightarrow>
                          files w' (DebugInfoPath (heap (rt chain_world) p)) = None)"
    and only: "\<forall>f. files w' f \<noteq> files chain_world f
                \<longrightarrow> files w' f = None
                    \<and> (\<exists>a. (0, a) \<in> (depends chain_world)\<^sup>*
                          \<and> Package (heap (rt chain_world) a) = ''_api''
                          \<and> DebugInfoPath (heap (rt chain_world) a) = f
                          \<and> DeactivateFault example_env a = None \<and> UnregisterFault example_env a = None)"
    and refuse: "\<forall>a c. Package (heap (rt chain_world) a) \<noteq> ''_api'' \<longrightarrow>
                 DeleteObject 3 example_env a c (Some []) None Empty chain_world
                   = Some (False,
                           map_option (\<lambda>es. es @ [''Object cannot be deleted because it was not created using the API.''])
                             (Some []),
                           None, chain_world)"
    by blast
  from root pk(1) have d: "DeleteObject 3 example_env 0 True (Some []) None Empty chain_world
                   = Some (b, errors', diag', w')" by simp
  from del [rule_format, of 0] chain_depends(1) nf [of 0]
  have o0: "\<not> Active (heap (rt w') 0)" "objects (rt w') (''Host'', ''h1'') = None"
    "files w' ''/var/lib/icinga2/api/packages/_api/stage1/conf.d/hosts/h1.conf'' = None"
    by (simp_all add: chain_objects example_object_simps)
  from del [rule_format, of 1] chain_depends(2) nf [of 1]
  have o1: "\<not> Active (heap (rt w') 1)" "objects (rt w') (''Service'', ''h1!ping'') = None"
    by (simp_all add: chain_objects example_object_simps)
  from del [rule_format, of 2] chain_depends(3) nf [of 2]
  have o2: "\<not> Active (heap (rt w') 2)" "objects (rt w') (''Downtime'', ''h1!ping!dt1'') = None"
    "files w' ''/var/lib/icinga2/api/packages/_api/stage1/conf.d/downtimes/dt1.conf'' = None"
    by (simp_all add: chain_objects example_object_simps)
  from only [rule_format, of "''/etc/icinga2/conf.d/services.conf''"] chain_api_paths
  have "files w' ''/etc/icinga2/conf.d/services.conf''
          = files chain_world ''/etc/icinga2/conf.d/services.conf''"
    by blast
  then have keep: "files w' ''/etc/icinga2/conf.d/services.conf'' = Some (''object Service ping'', 420)"
    by (simp add: chain_world_simps)
  from refuse pk(2)
  have n: "DeleteObject 3 example_env 1 True (Some []) None Empty chain_world
       = Some (False, Some [''Object cannot be deleted because it was not created using the API.''],
               None, chain_world)"
    by simp
  from d o0 o1 o2 keep have "\<exists>b errors' diag' w'.
         DeleteObject 3 example_env 0 True (Some []) None Empty chain_world
           = Some (b, errors', diag', w')
         \<and> \<not> Active (heap (rt w') 0) \<and> objects (rt w') (''Host'', ''h1'') = None
         \<and> files w' ''/var/lib/icinga2/api/packages/_api/stage1/conf.d/hosts/h1.conf'' = None
         \<and> \<not> Active (heap (rt w') 1) \<and> objects (rt w') (''Service'', ''h1!ping'') = None
         \<and> files w' ''/etc/icinga2/conf.d/services.conf'' = Some (''object Service ping'', 420)
         \<and> \<not> Active (heap (rt w') 2) \<and> objects (rt w') (''Downtime'', ''h1!ping!dt1'') = None
         \<and> files w' ''/var/lib/icinga2/api/packages/_api/stage1/conf.d/downtimes/dt1.conf'' = None"
    by blast
  with r pk chain_depends(2,3) n show ?thesis by blast
qed

end
